theory Spec2Isabelle
  imports Complex_Main "HOL-Library.Log_Nat"
begin

section \<open>The PEPE/XNT trade tracker (server.js)\<close>

text \<open>
  A shallow embedding of the decision logic of \<^verbatim>\<open>server.js\<close>: the balance-delta trade
  inferrer \<^verbatim>\<open>parseSwapFromTransaction\<close>, the retry wrapper \<^verbatim>\<open>withRetry\<close>, the SSE
  broadcast \<^verbatim>\<open>broadcastTrade\<close>, the holder-count cache
  \<^verbatim>\<open>getToken2022HoldersCached\<close> and the per-transaction loop of
  \<^verbatim>\<open>fetchHistoricalTrades\<close>.

  A JavaScript number is a double. The model keeps the rational it denotes
  (\<^typ>\<open>rat\<close>) and rounds the exact result of every \<^verbatim>\<open>+\<close>, \<^verbatim>\<open>-\<close> and
  \<^verbatim>\<open>/\<close> to the nearest double, ties to even, as IEEE 754 does; clock readings and
  counters are integers or naturals. Values that may be missing in the RPC response
  (\<^verbatim>\<open>undefined\<close> or \<^verbatim>\<open>null\<close>) are options. An exception that the source catches
  is the branch of the model that the \<^verbatim>\<open>catch\<close> block computes.
\<close>

subsection \<open>JavaScript numbers\<close>

text \<open>Rounding to the nearest integer, a tie to the even neighbour.\<close>

definition round_half_even :: "rat \<Rightarrow> int" where
  "round_half_even y =
     (let f = \<lfloor>y\<rfloor>; r = y - of_int f
      in if r < 1 / 2 then f
         else if 1 / 2 < r then f + 1
         else if even f then f else f + 1)"

text \<open>The binary exponent \<open>e\<close> of a positive number \<open>x\<close>: \<open>2 powi e \<le> x < 2 powi (e + 1)\<close>.\<close>

definition ilog2 :: "rat \<Rightarrow> int" where
  "ilog2 x = (if 1 \<le> x then bitlen \<lfloor>x\<rfloor> - 1 else - bitlen (\<lceil>1 / x\<rceil> - 1))"

text \<open>
  The nearest binary64 number: 53 significant bits, and below \<open>2 powi (- 1022)\<close> the
  fixed spacing \<open>2 powi (- 1074)\<close> of the subnormal numbers. Results of magnitude
  \<open>2 ^ 1024\<close> or more, which a double turns into \<^verbatim>\<open>Infinity\<close>, are outside the
  model: token amounts and lamport balances stay below \<open>2 ^ 64\<close>.
\<close>

definition round64 :: "rat \<Rightarrow> rat" where
  "round64 x =
     (if x = 0 then 0
      else
        (let e = max (ilog2 \<bar>x\<bar>) (- 1022);
             ulp = 2 powi (e - 52)
         in of_int (round_half_even (x / ulp)) * ulp))"

text \<open>The operators \<^verbatim>\<open>+\<close>, \<^verbatim>\<open>-\<close> and \<^verbatim>\<open>/\<close> on numbers.\<close>

definition js_add :: "rat \<Rightarrow> rat \<Rightarrow> rat" where
  "js_add x y = round64 (x + y)"

definition js_sub :: "rat \<Rightarrow> rat \<Rightarrow> rat" where
  "js_sub x y = round64 (x - y)"

definition js_div :: "rat \<Rightarrow> rat \<Rightarrow> rat" where
  "js_div x y = round64 (x / y)"

subsection \<open>Configuration\<close>

definition XNT_MINT :: string where
  "XNT_MINT = ''So11111111111111111111111111111111111111112''"

definition PEPE_MINT :: string where
  "PEPE_MINT = ''81LkybSBLvXYMTF6azXohUWyBvDGUXznm4yiXPkYkDTJ''"

subsection \<open>The parsed transaction, as the RPC client returns it\<close>

text \<open>
  An account key is a string, an object with a \<^verbatim>\<open>pubkey\<close> field, an object with a
  \<^verbatim>\<open>toBase58\<close> method, or anything else; every one is turned into an address string
  (\<^verbatim>\<open>k\<close>, \<^verbatim>\<open>k.pubkey.toString()\<close>, \<^verbatim>\<open>k.toBase58()\<close>, \<^verbatim>\<open>String(k)\<close>).
\<close>

datatype account_key =
    KeyString string
  | KeyParsed string
  | KeyPublicKey string
  | KeyOther string

fun key_address :: "account_key \<Rightarrow> string" where
  "key_address (KeyString s) = s"
| "key_address (KeyParsed s) = s"
| "key_address (KeyPublicKey s) = s"
| "key_address (KeyOther s) = s"

text \<open>
  The numbers of a transaction are written as the RPC response gives them, in decimal;
  reading one yields the nearest double (\<^const>\<open>round64\<close>).
\<close>

record ui_token_amount =
  uiAmount :: "rat option"

record token_balance =
  accountIndex :: nat
  mint :: string
  owner :: "string option"
  uiTokenAmount :: "ui_token_amount option"

record tx_meta =
  preTokenBalances :: "token_balance list option"
  postTokenBalances :: "token_balance list option"
  preBalances :: "int list option"
  postBalances :: "int list option"

record tx_message =
  accountKeys :: "account_key list option"

record tx_transaction =
  message :: "tx_message option"
  signatures :: "string list option"

record parsed_tx =
  transaction :: "tx_transaction option"
  meta :: "tx_meta option"
  blockTime :: "int option"
  tx_slot :: "nat option"
  tx_signatures :: "string list option"

subsection \<open>The trade record\<close>

datatype trade_type = lp_add | lp_remove | buy | sell

record trade =
  trade_id :: nat
  signature :: string
  trade_type :: trade_type
  token_amount :: rat
  native_amount :: rat
  price :: "rat option"
  trader_address :: string
  trader_prefix :: string
  timestamp :: int
  slot :: "nat option"

subsection \<open>parseSwapFromTransaction\<close>

text \<open>
  Step 1: the trader is the first account key. When \<^verbatim>\<open>tx.transaction\<close> or its
  \<^verbatim>\<open>message\<close> is missing the property access throws and the address stays
  \<^verbatim>\<open>"Unknown"\<close>; when the key list is missing or empty the first key is
  \<^verbatim>\<open>undefined\<close> and \<^verbatim>\<open>String(undefined)\<close> is the address.
\<close>

definition traderAddress_of :: "parsed_tx \<Rightarrow> string" where
  "traderAddress_of tx =
     (case transaction tx of
        None \<Rightarrow> ''Unknown''
      | Some tr \<Rightarrow>
          (case message tr of
             None \<Rightarrow> ''Unknown''
           | Some msg \<Rightarrow>
               (case accountKeys msg of
                  None \<Rightarrow> ''undefined''
                | Some [] \<Rightarrow> ''undefined''
                | Some (firstKey # _) \<Rightarrow> key_address firstKey)))"

text \<open>\<^verbatim>\<open>x || []\<close> on a list that may be missing.\<close>

definition or_empty :: "'a list option \<Rightarrow> 'a list" where
  "or_empty xs = (case xs of None \<Rightarrow> [] | Some l \<Rightarrow> l)"

text \<open>
  \<^verbatim>\<open>postByIndex\<close>: a \<^verbatim>\<open>Map\<close> filled in list order, so a later entry with the same
  \<^verbatim>\<open>accountIndex\<close> replaces an earlier one.
\<close>

definition postByIndex :: "token_balance list \<Rightarrow> (nat \<rightharpoonup> token_balance)" where
  "postByIndex postToken = foldl (\<lambda>m p. m(accountIndex p \<mapsto> p)) Map.empty postToken"

text \<open>\<^verbatim>\<open>pre.owner || post.owner\<close>: the empty string is falsy.\<close>

definition owner_or :: "string option \<Rightarrow> string option \<Rightarrow> string option" where
  "owner_or a b = (case a of None \<Rightarrow> b | Some s \<Rightarrow> if s = [] then b else Some s)"

definition falsy :: "string option \<Rightarrow> bool" where
  "falsy a = (case a of None \<Rightarrow> True | Some s \<Rightarrow> s = [])"

text \<open>\<^verbatim>\<open>b.uiTokenAmount?.uiAmount ?? 0\<close>\<close>

definition amount_of :: "token_balance \<Rightarrow> rat" where
  "amount_of b =
     (case uiTokenAmount b of
        None \<Rightarrow> 0
      | Some u \<Rightarrow> (case uiAmount u of None \<Rightarrow> 0 | Some a \<Rightarrow> round64 a))"

text \<open>
  Step 2, the loop over \<^verbatim>\<open>preToken\<close>. The accumulator is the pair
  \<^verbatim>\<open>(pepeChange, xntTokenChange)\<close>.
\<close>

fun token_loop ::
  "string \<Rightarrow> (nat \<rightharpoonup> token_balance) \<Rightarrow> token_balance list \<Rightarrow> rat \<times> rat \<Rightarrow> rat \<times> rat"
where
  "token_loop traderAddress pbi [] acc = acc"
| "token_loop traderAddress pbi (pre # rest) (pepeChange, xntTokenChange) =
     (case pbi (accountIndex pre) of
        None \<Rightarrow> token_loop traderAddress pbi rest (pepeChange, xntTokenChange)
      | Some post \<Rightarrow>
          (let own = owner_or (owner pre) (owner post) in
           if falsy own \<or> own \<noteq> Some traderAddress
           then token_loop traderAddress pbi rest (pepeChange, xntTokenChange)
           else
             (let preAmt = amount_of pre;
                  postAmt = amount_of post;
                  change = js_sub postAmt preAmt;
                  pepeChange' =
                    (if mint pre = PEPE_MINT then js_add pepeChange change else pepeChange);
                  xntTokenChange' =
                    (if mint pre = XNT_MINT then js_add xntTokenChange change
                     else xntTokenChange)
              in token_loop traderAddress pbi rest (pepeChange', xntTokenChange'))))"

definition splChanges :: "parsed_tx \<Rightarrow> tx_meta \<Rightarrow> rat \<times> rat" where
  "splChanges tx m =
     token_loop (traderAddress_of tx) (postByIndex (or_empty (postTokenBalances m)))
       (or_empty (preTokenBalances m)) (0, 0)"

definition pepeChange_of :: "parsed_tx \<Rightarrow> tx_meta \<Rightarrow> rat" where
  "pepeChange_of tx m = fst (splChanges tx m)"

definition xntTokenChange_of :: "parsed_tx \<Rightarrow> tx_meta \<Rightarrow> rat" where
  "xntTokenChange_of tx m = snd (splChanges tx m)"

text \<open>
  Step 3: the first index \<^verbatim>\<open>i\<close> with \<^verbatim>\<open>addr === traderAddress\<close>, counted from
  \<^verbatim>\<open>i\<close>; \<^verbatim>\<open>None\<close> is the source's \<^verbatim>\<open>-1\<close>.
\<close>

fun find_trader_index :: "account_key list \<Rightarrow> string \<Rightarrow> nat \<Rightarrow> nat option" where
  "find_trader_index [] traderAddress i = None"
| "find_trader_index (k # ks) traderAddress i =
     (if key_address k = traderAddress then Some i
      else find_trader_index ks traderAddress (Suc i))"

text \<open>\<^verbatim>\<open>xs[i]\<close>: \<^verbatim>\<open>undefined\<close> out of range.\<close>

definition js_index :: "'a list \<Rightarrow> nat \<Rightarrow> 'a option" where
  "js_index xs i = (if i < length xs then Some (xs ! i) else None)"

text \<open>
  The lamport fallback. Reading \<^verbatim>\<open>tx.transaction.message.accountKeys\<close> or
  \<^verbatim>\<open>keys.length\<close> throws when a part is missing; the \<^verbatim>\<open>catch\<close> leaves
  \<^verbatim>\<open>xntNativeChange\<close> at 0.
\<close>

definition xntNativeChange_of :: "parsed_tx \<Rightarrow> tx_meta \<Rightarrow> rat" where
  "xntNativeChange_of tx m =
     (case transaction tx of
        None \<Rightarrow> 0
      | Some tr \<Rightarrow>
          (case message tr of
             None \<Rightarrow> 0
           | Some msg \<Rightarrow>
               (case accountKeys msg of
                  None \<Rightarrow> 0
                | Some keys \<Rightarrow>
                    (let preLamports = or_empty (preBalances m);
                         postLamports = or_empty (postBalances m)
                     in case find_trader_index keys (traderAddress_of tx) 0 of
                          None \<Rightarrow> 0
                        | Some traderIndex \<Rightarrow>
                            (case js_index preLamports traderIndex of
                               None \<Rightarrow> 0
                             | Some preL \<Rightarrow>
                                 (case js_index postLamports traderIndex of
                                    None \<Rightarrow> 0
                                  | Some postL \<Rightarrow>
                                      (let deltaLamports =
                                             js_sub (round64 (of_int postL))
                                               (round64 (of_int preL))
                                       in js_div deltaLamports 1000000000)))))))"

text \<open>Step 4: prefer the SPL token delta, otherwise the native lamport delta.\<close>

definition xntChange_of :: "parsed_tx \<Rightarrow> tx_meta \<Rightarrow> rat" where
  "xntChange_of tx m =
     (let xntChange = xntTokenChange_of tx m
      in if xntChange = 0 then xntNativeChange_of tx m else xntChange)"

text \<open>Step 5: the trade type from the two signs; \<^verbatim>\<open>None\<close> is the \<^verbatim>\<open>return null\<close>.\<close>

definition classify :: "rat \<Rightarrow> rat \<Rightarrow> trade_type option" where
  "classify pepeChange xntChange =
     (if pepeChange < 0 \<and> xntChange < 0 then Some lp_add
      else if pepeChange > 0 \<and> xntChange > 0 then Some lp_remove
      else if pepeChange > 0 \<and> xntChange < 0 then Some buy
      else if pepeChange < 0 \<and> xntChange > 0 then Some sell
      else None)"

text \<open>
  \<^verbatim>\<open>tx.transaction?.signatures?.[0] || tx.signatures?.[0] || "unknown_signature"\<close>
\<close>

definition first_truthy :: "string list option \<Rightarrow> string option" where
  "first_truthy sigs =
     (case sigs of
        None \<Rightarrow> None
      | Some [] \<Rightarrow> None
      | Some (s # _) \<Rightarrow> if s = [] then None else Some s)"

definition sig_of :: "parsed_tx \<Rightarrow> string" where
  "sig_of tx =
     (case (case transaction tx of None \<Rightarrow> None | Some tr \<Rightarrow> first_truthy (signatures tr)) of
        Some s \<Rightarrow> s
      | None \<Rightarrow>
          (case first_truthy (tx_signatures tx) of
             Some s \<Rightarrow> s
           | None \<Rightarrow> ''unknown_signature''))"

text \<open>\<^verbatim>\<open>tx.blockTime ? tx.blockTime * 1000 : Date.now()\<close>: a block time of 0 is falsy.\<close>

definition ts_of :: "int \<Rightarrow> parsed_tx \<Rightarrow> int" where
  "ts_of now tx =
     (case blockTime tx of
        None \<Rightarrow> now
      | Some t \<Rightarrow> if t = 0 then now else t * 1000)"

text \<open>
  The whole function. \<^verbatim>\<open>now\<close> is the reading of \<^verbatim>\<open>Date.now()\<close>,
  \<^verbatim>\<open>tradeIdCounter\<close> the global counter, returned updated; the transaction is
  \<^verbatim>\<open>None\<close> when the RPC client found none.
\<close>

definition parseSwapFromTransaction ::
  "int \<Rightarrow> nat \<Rightarrow> parsed_tx option \<Rightarrow> trade option \<times> nat"
where
  "parseSwapFromTransaction now tradeIdCounter txo =
     (case txo of
        None \<Rightarrow> (None, tradeIdCounter)
      | Some tx \<Rightarrow>
          (case meta tx of
             None \<Rightarrow> (None, tradeIdCounter)
           | Some m \<Rightarrow>
               (let traderAddress = traderAddress_of tx;
                    pepeChange = pepeChange_of tx m
                in if pepeChange = 0 then (None, tradeIdCounter)
                   else
                     (let xntChange = xntChange_of tx m
                      in if xntChange = 0 then (None, tradeIdCounter)
                         else
                           (case classify pepeChange xntChange of
                              None \<Rightarrow> (None, tradeIdCounter)
                            | Some tradeType \<Rightarrow>
                                (let pepeAbs = \<bar>pepeChange\<bar>;
                                     xntAbs = \<bar>xntChange\<bar>
                                 in (Some \<lparr> trade_id = tradeIdCounter,
                                            signature = sig_of tx,
                                            trade_type = tradeType,
                                            token_amount = pepeAbs,
                                            native_amount = xntAbs,
                                            price =
                                              (if tradeType = buy \<or> tradeType = sell
                                               then Some (js_div xntAbs pepeAbs) else None),
                                            trader_address = traderAddress,
                                            trader_prefix = take 6 traderAddress,
                                            timestamp = ts_of now tx,
                                            slot = tx_slot tx \<rparr>,
                                     tradeIdCounter + 1)))))))"

subsection \<open>The changes the token loop adds up\<close>

text \<open>
  What one entry of the pre-balance list adds to the trader's change of the asset
  \<open>mintId\<close>: nothing, unless the post-balance list has an entry with the same
  \<^verbatim>\<open>accountIndex\<close>, the owner (the pre owner, else the post owner) is the trader and the
  mint of the pre entry is \<open>mintId\<close>; then the difference of the two amounts.
\<close>

definition trader_change ::
  "string \<Rightarrow> string \<Rightarrow> (nat \<rightharpoonup> token_balance) \<Rightarrow> token_balance \<Rightarrow> rat list" where
  "trader_change mintId traderAddress pbi pre =
     (case pbi (accountIndex pre) of
        None \<Rightarrow> []
      | Some post \<Rightarrow>
          (let own = owner_or (owner pre) (owner post)
           in if \<not> falsy own \<and> own = Some traderAddress \<and> mint pre = mintId
              then [js_sub (amount_of post) (amount_of pre)] else []))"

text \<open>The changes of all entries, in the order of the pre-balance list.\<close>

definition trader_changes :: "string \<Rightarrow> parsed_tx \<Rightarrow> tx_meta \<Rightarrow> rat list" where
  "trader_changes mintId tx m =
     concat (map (trader_change mintId (traderAddress_of tx)
                    (postByIndex (or_empty (postTokenBalances m))))
               (or_empty (preTokenBalances m)))"

text \<open>Adding numbers up from 0 with \<^verbatim>\<open>+=\<close>, one after the other.\<close>

definition js_sum :: "rat list \<Rightarrow> rat" where
  "js_sum xs = foldl js_add 0 xs"

subsection \<open>The net delta over all entries of the trader\<close>

text \<open>
  The net trader-owned delta as the specification words it, over all token-balance
  entries whose owner is the trader: what the trader's accounts of the asset hold after
  the transaction less what they held before, in exact arithmetic.
\<close>

definition owned_amounts :: "string \<Rightarrow> string \<Rightarrow> token_balance list \<Rightarrow> rat list" where
  "owned_amounts mintId traderAddress entries =
     map amount_of (filter (\<lambda>b. owner b = Some traderAddress \<and> mint b = mintId) entries)"

definition net_delta_all_entries :: "string \<Rightarrow> parsed_tx \<Rightarrow> tx_meta \<Rightarrow> rat" where
  "net_delta_all_entries mintId tx m =
     sum_list (owned_amounts mintId (traderAddress_of tx) (or_empty (postTokenBalances m)))
     - sum_list (owned_amounts mintId (traderAddress_of tx) (or_empty (preTokenBalances m)))"

subsection \<open>Example transactions\<close>

text \<open>
  The trader \<^verbatim>\<open>Trader\<close> is the first account key. In \<open>example_buy_tx\<close> the
  trader's PEPE balance goes from 1000 to 1200 and the trader's lamports from
  5000000000 to 4000000000, with no entry for the XNT mint.
\<close>

definition balance_entry :: "nat \<Rightarrow> string \<Rightarrow> string \<Rightarrow> rat \<Rightarrow> token_balance" where
  "balance_entry i mintId own amt =
     \<lparr> accountIndex = i, mint = mintId, owner = Some own,
       uiTokenAmount = Some \<lparr> uiAmount = Some amt \<rparr> \<rparr>"

definition example_message :: tx_message where
  "example_message = \<lparr> accountKeys = Some [KeyParsed ''Trader'', KeyParsed ''Pool''] \<rparr>"

definition example_transaction :: tx_transaction where
  "example_transaction = \<lparr> message = Some example_message, signatures = Some [''sig1''] \<rparr>"

definition example_tx :: "tx_meta \<Rightarrow> parsed_tx" where
  "example_tx m =
     \<lparr> transaction = Some example_transaction,
       meta = Some m,
       blockTime = Some 1700000000,
       tx_slot = Some 42,
       tx_signatures = None \<rparr>"

definition example_buy_meta :: tx_meta where
  "example_buy_meta =
     \<lparr> preTokenBalances = Some [balance_entry 1 PEPE_MINT ''Trader'' 1000],
       postTokenBalances = Some [balance_entry 1 PEPE_MINT ''Trader'' 1200],
       preBalances = Some [5000000000, 70],
       postBalances = Some [4000000000, 70] \<rparr>"

definition example_buy_tx :: parsed_tx where
  "example_buy_tx = example_tx example_buy_meta"

text \<open>The price is the double that \<^verbatim>\<open>0.005\<close> denotes.\<close>

definition example_buy_trade :: trade where
  "example_buy_trade =
     \<lparr> trade_id = 1, signature = ''sig1'', trade_type = buy, token_amount = 200,
       native_amount = 1, price = Some (round64 (5 / 1000)), trader_address = ''Trader'',
       trader_prefix = ''Trader'', timestamp = 1700000000000, slot = Some 42 \<rparr>"

text \<open>
  PEPE from 1000 to 1200 and wrapped XNT from 10 to 60, both positive, while the
  lamports drop by a fee of 5000.
\<close>

definition example_lp_remove_meta :: tx_meta where
  "example_lp_remove_meta =
     \<lparr> preTokenBalances = Some [balance_entry 1 PEPE_MINT ''Trader'' 1000,
                                 balance_entry 2 XNT_MINT ''Trader'' 10],
       postTokenBalances = Some [balance_entry 1 PEPE_MINT ''Trader'' 1200,
                                  balance_entry 2 XNT_MINT ''Trader'' 60],
       preBalances = Some [5000000000, 70],
       postBalances = Some [4999995000, 70] \<rparr>"

definition example_lp_remove_trade :: trade where
  "example_lp_remove_trade =
     \<lparr> trade_id = 1, signature = ''sig1'', trade_type = lp_remove, token_amount = 200,
       native_amount = 50, price = None, trader_address = ''Trader'',
       trader_prefix = ''Trader'', timestamp = 1700000000000, slot = Some 42 \<rparr>"

text \<open>PEPE unchanged while wrapped XNT and the lamports move.\<close>

definition example_noop_meta :: tx_meta where
  "example_noop_meta =
     \<lparr> preTokenBalances = Some [balance_entry 1 PEPE_MINT ''Trader'' 1000,
                                 balance_entry 2 XNT_MINT ''Trader'' 10],
       postTokenBalances = Some [balance_entry 1 PEPE_MINT ''Trader'' 1000,
                                  balance_entry 2 XNT_MINT ''Trader'' 60],
       preBalances = Some [5000000000, 70],
       postBalances = Some [4000000000, 70] \<rparr>"

text \<open>
  The trader moves 200 PEPE from one own account to another and the first account is
  closed, so it has no post-balance entry: the trader holds 200 before and after.
\<close>

definition example_closed_meta :: tx_meta where
  "example_closed_meta =
     \<lparr> preTokenBalances = Some [balance_entry 1 PEPE_MINT ''Trader'' 200,
                                 balance_entry 2 PEPE_MINT ''Trader'' 0],
       postTokenBalances = Some [balance_entry 2 PEPE_MINT ''Trader'' 200],
       preBalances = Some [5000000000, 70],
       postBalances = Some [4000000000, 70] \<rparr>"

text \<open>
  Four accounts of the trader change by \<open>+0.1\<close>, \<open>+0.2\<close>, \<open>-0.1\<close> and \<open>-0.2\<close>: the
  trader holds the same before and after.
\<close>

definition example_residue_meta :: tx_meta where
  "example_residue_meta =
     \<lparr> preTokenBalances = Some [balance_entry 1 PEPE_MINT ''Trader'' 0,
                                 balance_entry 2 PEPE_MINT ''Trader'' 0,
                                 balance_entry 3 PEPE_MINT ''Trader'' (1 / 10),
                                 balance_entry 4 PEPE_MINT ''Trader'' (2 / 10)],
       postTokenBalances = Some [balance_entry 1 PEPE_MINT ''Trader'' (1 / 10),
                                  balance_entry 2 PEPE_MINT ''Trader'' (2 / 10),
                                  balance_entry 3 PEPE_MINT ''Trader'' 0,
                                  balance_entry 4 PEPE_MINT ''Trader'' 0],
       preBalances = Some [5000000000, 70],
       postBalances = Some [4000000000, 70] \<rparr>"

subsection \<open>withRetry\<close>

text \<open>
  A thrown value: its \<^verbatim>\<open>message\<close> property, when it has one, and what
  \<^verbatim>\<open>String(e)\<close> makes of it.
\<close>

datatype js_error = JsError (err_message: "string option") (err_string: string)

text \<open>\<^verbatim>\<open>String(e?.message || e)\<close>: an empty message is falsy.\<close>

definition error_msg :: "js_error \<Rightarrow> string" where
  "error_msg e =
     (case err_message e of
        None \<Rightarrow> err_string e
      | Some s \<Rightarrow> if s = [] then err_string e else s)"

text \<open>\<^verbatim>\<open>msg.includes(sub)\<close>: \<open>sub\<close> occurs in \<open>msg\<close> as a substring.\<close>

fun js_includes :: "string \<Rightarrow> string \<Rightarrow> bool" where
  "js_includes [] sub = (sub = [])"
| "js_includes (c # cs) sub = (take (length sub) (c # cs) = sub \<or> js_includes cs sub)"

definition is429 :: "js_error \<Rightarrow> bool" where
  "is429 e =
     (let msg = error_msg e
      in js_includes msg ''429'' \<or> js_includes msg ''Too Many Requests'')"

text \<open>
  The \<^verbatim>\<open>while (true)\<close> loop. \<open>fn k\<close> is the outcome of the call of \<^verbatim>\<open>fn()\<close>
  made when \<^verbatim>\<open>attempt\<close> is \<open>k\<close>; the loop calls it once for each value of
  \<^verbatim>\<open>attempt\<close>. The result comes with the delays slept, in order. The loop ends:
  \<^verbatim>\<open>attempt\<close> grows with every retry and no retry is made once it has reached
  \<^verbatim>\<open>retries\<close>.
\<close>

function withRetry_loop ::
  "(nat \<Rightarrow> js_error + 'a) \<Rightarrow> nat \<Rightarrow> nat \<Rightarrow> nat \<Rightarrow> nat list \<Rightarrow> (js_error + 'a) \<times> nat list"
where
  "withRetry_loop fn retries baseDelayMs attempt slept =
     (case fn attempt of
        Inr v \<Rightarrow> (Inr v, slept)
      | Inl e \<Rightarrow>
          if \<not> is429 e \<or> attempt \<ge> retries then (Inl e, slept)
          else
            (let delay = baseDelayMs * 2 ^ attempt
             in withRetry_loop fn retries baseDelayMs (attempt + 1) (slept @ [delay])))"
  by pat_completeness auto
termination
  by (relation "measure (\<lambda>(fn, retries, baseDelayMs, attempt, slept). retries - attempt)") auto

declare withRetry_loop.simps [simp del]

text \<open>The call with options, and with the defaults \<^verbatim>\<open>{ retries = 6, baseDelayMs = 500 }\<close>.\<close>

definition withRetry_opts ::
  "(nat \<Rightarrow> js_error + 'a) \<Rightarrow> nat \<Rightarrow> nat \<Rightarrow> (js_error + 'a) \<times> nat list" where
  "withRetry_opts fn retries baseDelayMs = withRetry_loop fn retries baseDelayMs 0 []"

definition withRetry :: "(nat \<Rightarrow> js_error + 'a) \<Rightarrow> (js_error + 'a) \<times> nat list" where
  "withRetry fn = withRetry_opts fn 6 500"

text \<open>An outcome that the loop answers with a retry, while retries are left.\<close>

definition rate_limited :: "js_error + 'a \<Rightarrow> bool" where
  "rate_limited r = (case r of Inl e \<Rightarrow> is429 e | Inr v \<Rightarrow> False)"

text \<open>Two errors: a refused connection and a rate limit.\<close>

definition error_boom :: js_error where
  "error_boom = JsError (Some ''connect ECONNREFUSED'') ''Error: connect ECONNREFUSED''"

definition error_429 :: js_error where
  "error_429 = JsError (Some ''429 Too Many Requests'') ''Error: 429 Too Many Requests''"

text \<open>An operation that is rate-limited twice and then returns 7.\<close>

definition flaky_twice :: "nat \<Rightarrow> js_error + nat" where
  "flaky_twice k = (if k < 2 then Inl error_429 else Inr 7)"

subsection \<open>broadcastTrade\<close>

text \<open>
  A subscriber is an open response stream. \<^verbatim>\<open>sseWrite\<close> appends one event to it, or
  throws when the stream can no longer be written (\<^verbatim>\<open>None\<close>).
\<close>

datatype sse_data = HistoryData "trade list" | TradeData trade

record client =
  client_id :: nat
  writable :: bool
  received :: "(string \<times> sse_data) list"

record hub =
  clients :: "client list"
  tradeHistory :: "trade list"

definition sseWrite :: "client \<Rightarrow> string \<Rightarrow> sse_data \<Rightarrow> client option" where
  "sseWrite res event data =
     (if writable res then Some (res\<lparr>received := received res @ [(event, data)]\<rparr>) else None)"

text \<open>
  \<^verbatim>\<open>tradeHistory.unshift(trade)\<close>, the cut to 8000 entries, and the fan-out, in which a
  write that throws is swallowed.
\<close>

definition broadcastTrade :: "trade \<Rightarrow> hub \<Rightarrow> hub" where
  "broadcastTrade trade s =
     (let unshifted = trade # tradeHistory s;
          tradeHistory' = (if length unshifted > 8000 then take 8000 unshifted else unshifted)
      in s\<lparr>tradeHistory := tradeHistory',
            clients :=
              map (\<lambda>client. case sseWrite client ''trade'' (TradeData trade) of
                                None \<Rightarrow> client
                              | Some client' \<Rightarrow> client')
                  (clients s)\<rparr>)"

text \<open>A run of publishes, the first trade of the list first.\<close>

definition broadcast_all :: "trade list \<Rightarrow> hub \<Rightarrow> hub" where
  "broadcast_all trades s = foldl (\<lambda>s' trade. broadcastTrade trade s') s trades"

definition initial_hub :: hub where
  "initial_hub = \<lparr> clients = [], tradeHistory = [] \<rparr>"

subsection \<open>getToken2022HoldersCached\<close>






text \<open>
  \<^verbatim>\<open>readU64LE\<close>: the bytes \<^verbatim>\<open>buf[0..7]\<close>, least significant first. A buffer with
  fewer than 8 bytes makes \<^verbatim>\<open>BigInt(undefined)\<close> throw.
\<close>

definition readU64LE :: "nat list \<Rightarrow> nat option" where
  "readU64LE buf =
     (if length buf < 8 then None
      else Some (fold (\<lambda>i n. or n (push_bit (8 * i) (buf ! i))) [0..<8] 0))"







subsection \<open>fetchHistoricalTrades: the loop over the signatures\<close>

text \<open>
  The state of the loop: the counter \<^verbatim>\<open>processed\<close>, the list \<^verbatim>\<open>parsedTrades\<close>, the
  global id counter, and the throttle pauses taken so far, each with the position of the
  signature after which it was taken and its length in milliseconds.
\<close>

record backfill =
  processed :: nat
  parsedTrades :: "trade list"
  tradeIdCounter :: nat
  pauses :: "(nat \<times> nat) list"

text \<open>
  The body of the \<^verbatim>\<open>try\<close> up to the two \<^verbatim>\<open>continue\<close>s: the transaction is fetched
  through \<^verbatim>\<open>withRetry\<close> (\<open>getParsedTransaction sig k\<close> is the outcome of the
  \<open>k\<close>-th request for the signature) and parsed. A fetch that fails, a missing
  transaction and a transaction that is no trade all give \<^verbatim>\<open>None\<close>.
\<close>

definition fetch_and_parse ::
  "(string \<Rightarrow> nat \<Rightarrow> js_error + parsed_tx option) \<Rightarrow> int \<Rightarrow> nat \<Rightarrow> string
     \<Rightarrow> trade option \<times> nat"
where
  "fetch_and_parse getParsedTransaction now idCounter sig =
     (case fst (withRetry (getParsedTransaction sig)) of
        Inl e \<Rightarrow> (None, idCounter)
      | Inr None \<Rightarrow> (None, idCounter)
      | Inr (Some tx) \<Rightarrow> parseSwapFromTransaction now idCounter (Some tx))"

text \<open>
  One iteration for the signature at position \<open>i\<close>; \<open>clock i\<close> is the reading of
  \<^verbatim>\<open>Date.now()\<close> there. The counter \<^verbatim>\<open>processed\<close> advances after the two
  \<^verbatim>\<open>continue\<close>s, and the throttle \<^verbatim>\<open>if (processed % 25 === 0) await sleep(120)\<close>
  follows it.
\<close>

definition backfill_step ::
  "(string \<Rightarrow> nat \<Rightarrow> js_error + parsed_tx option) \<Rightarrow> (nat \<Rightarrow> int) \<Rightarrow> nat \<Rightarrow> string
     \<Rightarrow> backfill \<Rightarrow> backfill"
where
  "backfill_step getParsedTransaction clock i sig st =
     (case fetch_and_parse getParsedTransaction (clock i) (tradeIdCounter st) sig of
        (None, idCounter) \<Rightarrow> st\<lparr>tradeIdCounter := idCounter\<rparr>
      | (Some trade, idCounter) \<Rightarrow>
          (let st' = st\<lparr>parsedTrades := parsedTrades st @ [trade],
                         processed := processed st + 1,
                         tradeIdCounter := idCounter\<rparr>
           in if processed st' mod 25 = 0 then st'\<lparr>pauses := pauses st' @ [(i, 120)]\<rparr>
              else st'))"

fun backfill_loop ::
  "(string \<Rightarrow> nat \<Rightarrow> js_error + parsed_tx option) \<Rightarrow> (nat \<Rightarrow> int) \<Rightarrow> nat \<Rightarrow> string list
     \<Rightarrow> backfill \<Rightarrow> backfill"
where
  "backfill_loop getParsedTransaction clock i [] st = st"
| "backfill_loop getParsedTransaction clock i (sig # sigs) st =
     backfill_loop getParsedTransaction clock (Suc i) sigs
       (backfill_step getParsedTransaction clock i sig st)"

definition fetchHistoricalTrades_loop ::
  "(string \<Rightarrow> nat \<Rightarrow> js_error + parsed_tx option) \<Rightarrow> (nat \<Rightarrow> int) \<Rightarrow> string list \<Rightarrow> nat
     \<Rightarrow> backfill"
where
  "fetchHistoricalTrades_loop getParsedTransaction clock sigs idCounter =
     backfill_loop getParsedTransaction clock 0 sigs
       \<lparr> processed = 0, parsedTrades = [], tradeIdCounter = idCounter, pauses = [] \<rparr>"

text \<open>Two RPC nodes: every transaction is the example buy, or the example no-op.\<close>

definition rpc_all_buys :: "string \<Rightarrow> nat \<Rightarrow> js_error + parsed_tx option" where
  "rpc_all_buys sig k = Inr (Some example_buy_tx)"

definition rpc_no_trades :: "string \<Rightarrow> nat \<Rightarrow> js_error + parsed_tx option" where
  "rpc_no_trades sig k = Inr (Some (example_tx example_noop_meta))"

section \<open>Properties\<close>

subsection \<open>Rounding to a double\<close>

lemma bitlen_eqI:
  assumes "0 \<le> e" "2 ^ nat e \<le> n" "n < 2 ^ nat (e + 1)"
  shows "bitlen n = e + 1"
proof (rule antisym)
  show "bitlen n \<le> e + 1"
    using assms by (simp add: bitlen_le_iff_power)
  have "nat (e + 1) - 1 = nat e" using assms(1) by simp
  then show "e + 1 \<le> bitlen n"
    using assms by (simp add: bitlen_ge_iff_power)
qed

lemma ilog2_eqI:
  assumes lo: "2 powi e \<le> x" and hi: "x < 2 powi (e + 1)"
  shows "ilog2 x = e"
proof (cases "1 \<le> x")
  case True
  have e0: "0 \<le> e"
  proof (rule ccontr)
    assume "\<not> 0 \<le> e"
    then have "e + 1 \<le> 0" by simp
    then have "(2::rat) powi (e + 1) \<le> 2 powi 0"
      by (intro power_int_increasing) simp_all
    with hi True show False by simp
  qed
  have "(2::rat) powi e = of_int (2 ^ nat e)"
    using e0 by (simp add: power_int_nonneg_exp)
  with lo have a: "2 ^ nat e \<le> \<lfloor>x\<rfloor>" by (simp add: le_floor_iff)
  have "(2::rat) powi (e + 1) = of_int (2 ^ nat (e + 1))"
    using e0 by (simp add: power_int_nonneg_exp)
  with hi have b: "\<lfloor>x\<rfloor> < 2 ^ nat (e + 1)" by (simp add: floor_less_iff)
  from bitlen_eqI [OF e0 a b] True show ?thesis by (simp add: ilog2_def)
next
  case False
  have xpos: "0 < x" using lo by (rule less_le_trans [rotated]) simp
  have e0: "e < 0"
  proof (rule ccontr)
    assume "\<not> e < 0"
    then have "(2::rat) powi 0 \<le> 2 powi e"
      by (intro power_int_increasing) simp_all
    with lo False show False by simp
  qed
  define j where "j = - e - 1"
  have j0: "0 \<le> j" using e0 by (simp add: j_def)
  have ej: "e = - (j + 1)" "e + 1 = - j" by (simp_all add: j_def)
  have "(2::rat) powi (j + 1) = 2 ^ nat (j + 1)"
    using j0 by (simp add: power_int_nonneg_exp)
  then have p1: "(2::rat) powi e = 1 / 2 ^ nat (j + 1)"
    by (simp only: ej(1) power_int_minus_divide)
  have "(2::rat) powi j = 2 ^ nat j"
    using j0 by (simp add: power_int_nonneg_exp)
  then have p2: "(2::rat) powi (e + 1) = 1 / 2 ^ nat j"
    by (simp only: ej(2) power_int_minus_divide)
  from lo have "1 / 2 ^ nat (j + 1) \<le> x" by (simp only: p1)
  with xpos have up: "1 / x \<le> 2 ^ nat (j + 1)"
    by (simp add: field_simps)
  from hi have "x < 1 / 2 ^ nat j" by (simp only: p2)
  with xpos have dn: "2 ^ nat j < 1 / x"
    by (simp add: field_simps)
  from up have "\<lceil>1 / x\<rceil> \<le> 2 ^ nat (j + 1)"
    by (simp add: ceiling_le_iff)
  then have b: "\<lceil>1 / x\<rceil> - 1 < 2 ^ nat (j + 1)" by simp
  from dn have "2 ^ nat j < \<lceil>1 / x\<rceil>"
    by (simp add: less_ceiling_iff)
  then have a: "2 ^ nat j \<le> \<lceil>1 / x\<rceil> - 1" by simp
  from bitlen_eqI [OF j0 a b] False show ?thesis by (simp add: ilog2_def j_def)
qed

lemma round64_at:
  assumes "x \<noteq> 0" and "2 powi e \<le> \<bar>x\<bar>" and "\<bar>x\<bar> < 2 powi (e + 1)" and "- 1022 \<le> e"
  shows "round64 x = of_int (round_half_even (x / 2 powi (e - 52))) * 2 powi (e - 52)"
  using assms ilog2_eqI [OF assms(2,3)] by (simp add: round64_def Let_def)

lemma round_half_even_eqI:
  assumes "\<bar>y - of_int n\<bar> < 1 / 2"
  shows "round_half_even y = n"
proof (cases "of_int n \<le> y")
  case True
  with assms have "\<lfloor>y\<rfloor> = n" by (intro floor_unique) simp_all
  with assms True show ?thesis by (simp add: round_half_even_def Let_def)
next
  case False
  with assms have "\<lfloor>y\<rfloor> = n - 1" by (intro floor_unique) simp_all
  with assms False show ?thesis by (simp add: round_half_even_def Let_def)
qed

lemma round_half_even_tie:
  assumes "y = of_int f + 1 / 2"
  shows "round_half_even y = (if even f then f else f + 1)"
proof -
  from assms have "\<lfloor>y\<rfloor> = f" by (intro floor_unique) simp_all
  with assms show ?thesis by (simp add: round_half_even_def Let_def)
qed

lemma round64_eqI:
  assumes "x \<noteq> 0" and "2 powi e \<le> \<bar>x\<bar>" and "\<bar>x\<bar> < 2 powi (e + 1)" and "- 1022 \<le> e"
    and "\<bar>x / 2 powi (e - 52) - of_int n\<bar> < 1 / 2"
  shows "round64 x = of_int n * 2 powi (e - 52)"
  using round64_at [OF assms(1-4)] round_half_even_eqI [OF assms(5)] by simp

text \<open>The double that the literal \<^verbatim>\<open>0.005\<close> denotes.\<close>

lemma double_0_005: "round64 (5 / 1000) = 5764607523034235 / 1152921504606846976"
proof -
  have "round64 (5 / 1000) = of_int 5764607523034235 * 2 powi (- 8 - 52)"
    by (rule round64_eqI) (simp_all add: power_int_minus_divide)
  then show ?thesis by (simp add: power_int_minus_divide)
qed

lemma round_half_even_of_int [simp]: "round_half_even (of_int z) = z"
  by (simp add: round_half_even_def)

lemma round64_of_int:
  assumes "\<bar>n\<bar> < 2 ^ 53"
  shows "round64 (of_int n) = of_int n"
proof (cases "n = 0")
  case True
  then show ?thesis by (simp add: round64_def)
next
  case False
  then have pos: "0 < \<bar>n\<bar>" by simp
  then have "1 \<le> \<bar>n\<bar>" by simp
  then have one: "(1::rat) \<le> \<bar>of_int n\<bar>"
    by (simp only: of_int_abs [symmetric] of_int_1_le_iff)
  have fl: "\<lfloor>\<bar>of_int n :: rat\<bar>\<rfloor> = \<bar>n\<bar>"
    by (metis floor_of_int of_int_abs)
  have le: "bitlen \<bar>n\<bar> \<le> 53"
    using assms by (simp add: bitlen_le_iff_power)
  have ge: "1 \<le> bitlen \<bar>n\<bar>"
    using pos by (simp add: bitlen_alt_def)
  define k where "k = nat (53 - bitlen \<bar>n\<bar>)"
  have e: "max (ilog2 \<bar>of_int n\<bar>) (- 1022) - 52 = - int k"
    using le ge one by (simp add: ilog2_def fl k_def)
  have "(of_int n :: rat) / 2 powi (- int k) = of_int (n * 2 ^ k)"
    by (simp add: power_int_minus field_simps)
  then have "round_half_even ((of_int n :: rat) / 2 powi (- int k)) = n * 2 ^ k"
    by (simp only: round_half_even_of_int)
  then show ?thesis
    using False by (simp add: round64_def Let_def e power_int_minus)
qed

lemma round64_numeral [simp]:
  "numeral w < (2 ^ 53 :: int) \<Longrightarrow> round64 (numeral w) = numeral w"
  using round64_of_int [of "numeral w"] by simp

lemma round64_neg_numeral [simp]:
  "numeral w < (2 ^ 53 :: int) \<Longrightarrow> round64 (- numeral w) = - numeral w"
  using round64_of_int [of "- numeral w"] by simp

lemma round64_0 [simp]: "round64 0 = 0" by (simp add: round64_def)
lemma round64_1 [simp]: "round64 1 = 1" using round64_of_int [of 1] by simp
lemma round64_m1 [simp]: "round64 (- 1) = - 1" using round64_of_int [of "- 1"] by simp

subsection \<open>The token loop adds up the changes of the matched entries\<close>

lemma token_loop_fold:
  "token_loop t pbi pre (a, b) =
     (foldl js_add a (concat (map (trader_change PEPE_MINT t pbi) pre)),
      foldl js_add b (concat (map (trader_change XNT_MINT t pbi) pre)))"
proof (induction pre arbitrary: a b)
  case Nil
  show ?case by simp
next
  case (Cons p ps)
  show ?case
    by (cases "pbi (accountIndex p)")
       (auto simp: Cons.IH trader_change_def Let_def)
qed

lemma splChanges_fold:
  "splChanges tx m =
     (js_sum (trader_changes PEPE_MINT tx m), js_sum (trader_changes XNT_MINT tx m))"
  by (simp add: splChanges_def token_loop_fold trader_changes_def js_sum_def)

lemma pepeChange_sum: "pepeChange_of tx m = js_sum (trader_changes PEPE_MINT tx m)"
  by (simp add: pepeChange_of_def splChanges_fold)


lemma js_sum_zeros: "\<forall>x \<in> set xs. x = 0 \<Longrightarrow> js_sum xs = 0"
  unfolding js_sum_def by (induction xs) (simp_all add: js_add_def)


subsection \<open>What a returned trade looks like\<close>

lemma parse_Some:
  assumes "parseSwapFromTransaction now c txo = (Some t, c')"
  obtains tx m tradeType where
    "txo = Some tx" "meta tx = Some m"
    "pepeChange_of tx m \<noteq> 0" "xntChange_of tx m \<noteq> 0"
    "classify (pepeChange_of tx m) (xntChange_of tx m) = Some tradeType"
    "trade_type t = tradeType"
    "token_amount t = \<bar>pepeChange_of tx m\<bar>"
    "native_amount t = \<bar>xntChange_of tx m\<bar>"
    "price t = (if tradeType = buy \<or> tradeType = sell
                then Some (js_div \<bar>xntChange_of tx m\<bar> \<bar>pepeChange_of tx m\<bar>) else None)"
    "c' = c + 1"
  using assms
  by (auto simp: parseSwapFromTransaction_def Let_def split: option.splits if_splits)

lemma parse_result:
  assumes "meta tx = Some m"
  shows "map_option trade_type (fst (parseSwapFromTransaction now c (Some tx))) =
           (if pepeChange_of tx m = 0 \<or> xntChange_of tx m = 0 then None
            else classify (pepeChange_of tx m) (xntChange_of tx m))"
  using assms
  by (auto simp: parseSwapFromTransaction_def Let_def split: option.splits)

lemma parse_buy:
  assumes "meta tx = Some m" "0 < pepeChange_of tx m" "xntChange_of tx m < 0"
  shows "\<exists>t. parseSwapFromTransaction now c (Some tx) = (Some t, c + 1)
            \<and> trade_type t = buy
            \<and> token_amount t = pepeChange_of tx m
            \<and> native_amount t = - xntChange_of tx m
            \<and> price t = Some (js_div (- xntChange_of tx m) (pepeChange_of tx m))"
  using assms by (simp add: parseSwapFromTransaction_def classify_def Let_def)



text \<open>The trader is the first account key, so its index is 0 whenever there is a key.\<close>

lemma trader_index_first:
  assumes "transaction tx = Some tr" "message tr = Some msg" "accountKeys msg = Some (k # ks)"
  shows "find_trader_index (k # ks) (traderAddress_of tx) 0 = Some 0"
  using assms by (simp add: traderAddress_of_def)


subsection \<open>Entries without a partner in the other list\<close>

lemma postByIndex_snoc:
  "postByIndex (qs @ [q]) = (postByIndex qs)(accountIndex q \<mapsto> q)"
  by (simp add: postByIndex_def)

lemma postByIndex_None: "postByIndex qs i = None \<longleftrightarrow> i \<notin> accountIndex ` set qs"
  by (induction qs rule: rev_induct) (auto simp: postByIndex_snoc postByIndex_def)

lemma postByIndex_filter:
  "postByIndex (filter (\<lambda>q. Q (accountIndex q)) qs) i =
     (if Q i then postByIndex qs i else None)"
  by (induction qs rule: rev_induct) (auto simp: postByIndex_snoc postByIndex_def)

lemma postByIndex_insert:
  "i \<noteq> accountIndex e \<Longrightarrow> postByIndex (qsa @ e # qsb) i = postByIndex (qsa @ qsb) i"
  by (induction qsb rule: rev_induct) (auto simp: postByIndex_def)

lemma trader_change_unmatched:
  "accountIndex p \<notin> accountIndex ` set qs \<Longrightarrow> trader_change mintId t (postByIndex qs) p = []"
  using postByIndex_None [of qs "accountIndex p"] by (simp add: trader_change_def)

lemma trader_change_cong:
  "pbi (accountIndex p) = pbi' (accountIndex p)
     \<Longrightarrow> trader_change mintId t pbi p = trader_change mintId t pbi' p"
  by (simp add: trader_change_def)

lemma splChanges_lists:
  "splChanges tx (m\<lparr>preTokenBalances := Some pre, postTokenBalances := Some post\<rparr>) =
     (js_sum (concat (map (trader_change PEPE_MINT (traderAddress_of tx) (postByIndex post)) pre)),
      js_sum (concat (map (trader_change XNT_MINT (traderAddress_of tx) (postByIndex post)) pre)))"
  by (simp add: splChanges_fold trader_changes_def or_empty_def)

lemma changes_drop_pre:
  assumes "accountIndex e \<notin> accountIndex ` set post"
  shows "concat (map (trader_change mintId t (postByIndex post)) (psa @ e # psb)) =
         concat (map (trader_change mintId t (postByIndex post)) (psa @ psb))"
  using trader_change_unmatched [OF assms] by simp

lemma changes_drop_post:
  assumes "accountIndex e \<notin> accountIndex ` set pre"
  shows "concat (map (trader_change mintId t (postByIndex (qsa @ e # qsb))) pre) =
         concat (map (trader_change mintId t (postByIndex (qsa @ qsb))) pre)"
proof -
  have "map (trader_change mintId t (postByIndex (qsa @ e # qsb))) pre =
        map (trader_change mintId t (postByIndex (qsa @ qsb))) pre"
  proof (rule map_cong [OF refl])
    fix p assume "p \<in> set pre"
    with assms have "accountIndex p \<noteq> accountIndex e" by (metis imageI)
    then show "trader_change mintId t (postByIndex (qsa @ e # qsb)) p =
               trader_change mintId t (postByIndex (qsa @ qsb)) p"
      by (intro trader_change_cong postByIndex_insert)
  qed
  then show ?thesis by (rule arg_cong)
qed

lemma concat_map_filter_empty:
  "(\<And>x. x \<in> set xs \<Longrightarrow> \<not> P x \<Longrightarrow> f x = []) \<Longrightarrow>
     concat (map f (filter P xs)) = concat (map f xs)"
  by (induction xs) simp_all

lemma changes_matched_only:
  "concat (map (trader_change mintId t
        (postByIndex (filter (\<lambda>q. accountIndex q \<in> accountIndex ` set pre) post)))
        (filter (\<lambda>p. accountIndex p \<in> accountIndex ` set post) pre)) =
   concat (map (trader_change mintId t (postByIndex post)) pre)"
proof -
  let ?post' = "filter (\<lambda>q. accountIndex q \<in> accountIndex ` set pre) post"
  let ?pre' = "filter (\<lambda>p. accountIndex p \<in> accountIndex ` set post) pre"
  have same: "trader_change mintId t (postByIndex ?post') p =
              trader_change mintId t (postByIndex post) p" if "p \<in> set ?pre'" for p
  proof (rule trader_change_cong)
    from that have "accountIndex p \<in> accountIndex ` set pre" by simp
    then show "postByIndex ?post' (accountIndex p) = postByIndex post (accountIndex p)"
      by (simp add: postByIndex_filter [where Q = "\<lambda>i. i \<in> accountIndex ` set pre"])
  qed
  have "concat (map (trader_change mintId t (postByIndex ?post')) ?pre') =
        concat (map (trader_change mintId t (postByIndex post)) ?pre')"
    by (rule arg_cong [where f = concat], rule map_cong [OF refl]) (rule same)
  also have "\<dots> = concat (map (trader_change mintId t (postByIndex post)) pre)"
    by (rule concat_map_filter_empty) (simp add: trader_change_unmatched)
  finally show ?thesis .
qed

subsection \<open>Evaluating the examples\<close>

lemmas example_defs =
  example_buy_tx_def example_buy_meta_def example_tx_def example_transaction_def
  example_message_def balance_entry_def example_lp_remove_meta_def example_noop_meta_def
  example_closed_meta_def example_residue_meta_def

lemmas eval_defs =
  pepeChange_of_def xntTokenChange_of_def xntChange_of_def xntNativeChange_of_def
  splChanges_def postByIndex_def or_empty_def traderAddress_of_def owner_or_def falsy_def
  amount_of_def js_index_def PEPE_MINT_def XNT_MINT_def Let_def
  js_add_def js_sub_def js_div_def

lemma example_meta: "meta (example_tx m) = Some m"
  by (simp add: example_tx_def)

lemma example_buy_changes:
  "pepeChange_of example_buy_tx example_buy_meta = 200"
  "xntTokenChange_of example_buy_tx example_buy_meta = 0"
  "xntNativeChange_of example_buy_tx example_buy_meta = - 1"
  "xntChange_of example_buy_tx example_buy_meta = - 1"
  by (simp_all add: example_defs eval_defs)

lemma example_lp_remove_changes:
  "pepeChange_of (example_tx example_lp_remove_meta) example_lp_remove_meta = 200"
  "xntTokenChange_of (example_tx example_lp_remove_meta) example_lp_remove_meta = 50"
  "xntChange_of (example_tx example_lp_remove_meta) example_lp_remove_meta = 50"
  by (simp_all add: example_defs eval_defs)

lemma example_noop_changes:
  "pepeChange_of (example_tx example_noop_meta) example_noop_meta = 0"
  "trader_changes PEPE_MINT (example_tx example_noop_meta) example_noop_meta = [0]"
  "trader_changes XNT_MINT (example_tx example_noop_meta) example_noop_meta = [50]"
  by (simp_all add: trader_changes_def trader_change_def example_defs eval_defs)

lemma parse_trade:
  assumes "meta tx = Some m" "pepeChange_of tx m = p" "xntChange_of tx m = x"
    and "p \<noteq> 0" "x \<noteq> 0" "classify p x = Some tradeType"
  shows "parseSwapFromTransaction now c (Some tx) =
           (Some \<lparr> trade_id = c, signature = sig_of tx, trade_type = tradeType,
                    token_amount = \<bar>p\<bar>, native_amount = \<bar>x\<bar>,
                    price = (if tradeType = buy \<or> tradeType = sell
                             then Some (js_div \<bar>x\<bar> \<bar>p\<bar>) else None),
                    trader_address = traderAddress_of tx,
                    trader_prefix = take 6 (traderAddress_of tx),
                    timestamp = ts_of now tx, slot = tx_slot tx \<rparr>, c + 1)"
  using assms by (simp add: parseSwapFromTransaction_def Let_def)

lemma example_fields:
  "sig_of (example_tx m) = ''sig1''"
  "traderAddress_of (example_tx m) = ''Trader''"
  "ts_of now (example_tx m) = 1700000000000"
  "tx_slot (example_tx m) = Some 42"
  by (simp_all add: example_tx_def example_transaction_def example_message_def
        sig_of_def first_truthy_def traderAddress_of_def ts_of_def)

lemma parse_example_buy:
  "parseSwapFromTransaction 0 1 (Some example_buy_tx) = (Some example_buy_trade, 2)"
proof -
  have "classify 200 (- 1) = Some buy" by (simp add: classify_def)
  from parse_trade [OF example_meta [of example_buy_meta]
          example_buy_changes(1) [unfolded example_buy_tx_def]
          example_buy_changes(4) [unfolded example_buy_tx_def] _ _ this, of 0 1]
  show ?thesis
    by (simp add: example_fields example_buy_tx_def example_buy_trade_def js_div_def)
qed

lemma parse_example_lp_remove:
  "parseSwapFromTransaction 0 1 (Some (example_tx example_lp_remove_meta)) =
     (Some example_lp_remove_trade, 2)"
proof -
  have "classify 200 50 = Some lp_remove" by (simp add: classify_def)
  from parse_trade [OF example_meta [of example_lp_remove_meta]
          example_lp_remove_changes(1) example_lp_remove_changes(3) _ _ this, of 0 1]
  show ?thesis
    by (simp add: example_fields example_lp_remove_trade_def)
qed

subsection \<open>The claims about the inferrer\<close>

text \<open>
  Claim C1. For every transaction with a \<^verbatim>\<open>meta\<close> record, the trade type of the
  result is decided by the signs of \<^verbatim>\<open>pepeChange\<close> (the asset change) and of the
  chosen \<^verbatim>\<open>xntChange\<close> (the base change) alone: both negative give
  \<^verbatim>\<open>lp_add\<close>, both positive \<^verbatim>\<open>lp_remove\<close>, asset positive and base negative
  \<^verbatim>\<open>buy\<close>, asset negative and base positive \<^verbatim>\<open>sell\<close>, and every other pair
  (one of the two is zero) gives no trade.
\<close>

theorem classification_by_sign_pair:
  assumes "meta tx = Some m"
  shows "map_option trade_type (fst (parseSwapFromTransaction now c (Some tx))) =
           (let assetChange = pepeChange_of tx m; baseChange = xntChange_of tx m
            in if assetChange < 0 \<and> baseChange < 0 then Some lp_add
               else if assetChange > 0 \<and> baseChange > 0 then Some lp_remove
               else if assetChange > 0 \<and> baseChange < 0 then Some buy
               else if assetChange < 0 \<and> baseChange > 0 then Some sell
               else None)"
  unfolding parse_result [OF assms] Let_def classify_def by auto

theorem classification_by_sign_pair_witness:
  "map_option trade_type (fst (parseSwapFromTransaction 0 1 (Some example_buy_tx))) = Some buy
   \<and> map_option trade_type
        (fst (parseSwapFromTransaction 0 1 (Some (example_tx example_lp_remove_meta))))
       = Some lp_remove
   \<and> map_option trade_type
        (fst (parseSwapFromTransaction 0 1 (Some (example_tx example_noop_meta)))) = None"
proof -
  have "pepeChange_of (example_tx example_buy_meta) example_buy_meta = 200"
       "xntChange_of (example_tx example_buy_meta) example_buy_meta = - 1"
    using example_buy_changes by (simp_all add: example_buy_tx_def)
  with example_lp_remove_changes example_noop_changes(1)
    classification_by_sign_pair [OF example_meta [of example_buy_meta], where now = 0 and c = 1]
    classification_by_sign_pair [OF example_meta [of example_lp_remove_meta],
      where now = 0 and c = 1]
    classification_by_sign_pair [OF example_meta [of example_noop_meta], where now = 0 and c = 1]
  show ?thesis by (simp add: example_buy_tx_def)
qed

text \<open>
  Claim C2, as the code has it. The inferrer returns no trade when the
  \<^verbatim>\<open>pepeChange\<close> it has added up is exactly zero: the sum, taken with \<^verbatim>\<open>+=\<close> in the
  order of the pre-balance list, of \<^verbatim>\<open>post - pre\<close> over the PEPE entries that have
  both a pre and a post record and are owned by the trader. That is so whatever the
  base-asset deltas are, and in particular when each of these entries is unchanged.
\<close>

theorem zero_accumulated_delta_no_trade:
  assumes "meta tx = Some m"
  shows "pepeChange_of tx m = js_sum (trader_changes PEPE_MINT tx m)
       \<and> (js_sum (trader_changes PEPE_MINT tx m) = 0
            \<longrightarrow> parseSwapFromTransaction now c (Some tx) = (None, c))
       \<and> ((\<forall>change \<in> set (trader_changes PEPE_MINT tx m). change = 0)
            \<longrightarrow> parseSwapFromTransaction now c (Some tx) = (None, c))"
proof (intro conjI impI)
  show "pepeChange_of tx m = js_sum (trader_changes PEPE_MINT tx m)"
    by (rule pepeChange_sum)
next
  assume "js_sum (trader_changes PEPE_MINT tx m) = 0"
  with assms show "parseSwapFromTransaction now c (Some tx) = (None, c)"
    by (simp add: parseSwapFromTransaction_def pepeChange_sum)
next
  assume "\<forall>change \<in> set (trader_changes PEPE_MINT tx m). change = 0"
  then have "js_sum (trader_changes PEPE_MINT tx m) = 0" by (rule js_sum_zeros)
  with assms show "parseSwapFromTransaction now c (Some tx) = (None, c)"
    by (simp add: parseSwapFromTransaction_def pepeChange_sum)
qed

theorem zero_accumulated_delta_no_trade_witness:
  "trader_changes PEPE_MINT (example_tx example_noop_meta) example_noop_meta = [0]
   \<and> trader_changes XNT_MINT (example_tx example_noop_meta) example_noop_meta = [50]
   \<and> parseSwapFromTransaction 0 1 (Some (example_tx example_noop_meta)) = (None, 1)"
proof -
  have "\<forall>change \<in> set (trader_changes PEPE_MINT (example_tx example_noop_meta)
                          example_noop_meta). change = 0"
    by (simp add: example_noop_changes)
  with zero_accumulated_delta_no_trade
         [OF example_meta [of example_noop_meta], where now = 0 and c = 1]
  have "parseSwapFromTransaction 0 1 (Some (example_tx example_noop_meta)) = (None, 1)"
    by blast
  with example_noop_changes show ?thesis by simp
qed

lemma closed_changes:
  "net_delta_all_entries PEPE_MINT (example_tx example_closed_meta) example_closed_meta = 0"
  "pepeChange_of (example_tx example_closed_meta) example_closed_meta = 200"
  "xntChange_of (example_tx example_closed_meta) example_closed_meta = - 1"
  by (simp_all add: net_delta_all_entries_def owned_amounts_def example_defs eval_defs)

lemma double_0_1: "round64 (1 / 10) = 3602879701896397 / 36028797018963968"
proof -
  have "round64 (1 / 10) = of_int 7205759403792794 * 2 powi (- 4 - 52)"
    by (rule round64_eqI) (simp_all add: power_int_minus_divide)
  then show ?thesis by (simp add: power_int_minus_divide)
qed

lemma double_0_2: "round64 (2 / 10) = 3602879701896397 / 18014398509481984"
proof -
  have "round64 (2 / 10) = of_int 7205759403792794 * 2 powi (- 3 - 52)"
    by (rule round64_eqI) (simp_all add: power_int_minus_divide)
  then show ?thesis by (simp add: power_int_minus_divide)
qed

lemma residue_step_a:
  "round64 (3602879701896397 / 36028797018963968) = 3602879701896397 / 36028797018963968"
proof -
  have "round64 (3602879701896397 / 36028797018963968) =
        of_int 7205759403792794 * 2 powi (- 4 - 52)"
    by (rule round64_eqI) (simp_all add: power_int_minus_divide)
  then show ?thesis by (simp add: power_int_minus_divide)
qed

lemma residue_step_b:
  "round64 (3602879701896397 / 18014398509481984) = 3602879701896397 / 18014398509481984"
proof -
  have "round64 (3602879701896397 / 18014398509481984) =
        of_int 7205759403792794 * 2 powi (- 3 - 52)"
    by (rule round64_eqI) (simp_all add: power_int_minus_divide)
  then show ?thesis by (simp add: power_int_minus_divide)
qed

lemma residue_step_c:
  "round64 (- (3602879701896397 / 36028797018963968)) =
     - (3602879701896397 / 36028797018963968)"
proof -
  have "round64 (- (3602879701896397 / 36028797018963968)) =
        of_int (- 7205759403792794) * 2 powi (- 4 - 52)"
    by (rule round64_eqI) (simp_all add: power_int_minus_divide)
  then show ?thesis by (simp add: power_int_minus_divide)
qed

lemma residue_step_d:
  "round64 (- (3602879701896397 / 18014398509481984)) =
     - (3602879701896397 / 18014398509481984)"
proof -
  have "round64 (- (3602879701896397 / 18014398509481984)) =
        of_int (- 7205759403792794) * 2 powi (- 3 - 52)"
    by (rule round64_eqI) (simp_all add: power_int_minus_divide)
  then show ?thesis by (simp add: power_int_minus_divide)
qed

text \<open>\<open>0.1 + 0.2\<close> lies halfway between two doubles and goes to the even one.\<close>

lemma residue_sum_ab:
  "round64 (10808639105689191 / 36028797018963968) = 1351079888211149 / 4503599627370496"
proof -
  have "round64 (10808639105689191 / 36028797018963968) =
        of_int (round_half_even ((10808639105689191 / 36028797018963968) / 2 powi (- 2 - 52)))
          * 2 powi (- 2 - 52)"
    by (rule round64_at) (simp_all add: power_int_minus_divide)
  moreover have "round_half_even ((10808639105689191 / 36028797018963968) / 2 powi (- 2 - 52)) =
        (if even (5404319552844595::int) then 5404319552844595 else 5404319552844595 + 1)"
    by (rule round_half_even_tie) (simp add: power_int_minus_divide)
  ultimately show ?thesis by (simp add: power_int_minus_divide)
qed

lemma residue_sum_abc:
  "round64 (7205759403792795 / 36028797018963968) = 7205759403792795 / 36028797018963968"
proof -
  have "round64 (7205759403792795 / 36028797018963968) =
        of_int 7205759403792795 * 2 powi (- 3 - 52)"
    by (rule round64_eqI) (simp_all add: power_int_minus_divide)
  then show ?thesis by (simp add: power_int_minus_divide)
qed

lemma residue_sum_abcd:
  "round64 (1 / 36028797018963968) = 1 / 36028797018963968"
proof -
  have "round64 (1 / 36028797018963968) = of_int 4503599627370496 * 2 powi (- 55 - 52)"
    by (rule round64_eqI) (simp_all add: power_int_minus_divide)
  then show ?thesis by (simp add: power_int_minus_divide)
qed

lemma double_0_2_reduced: "round64 (1 / 5) = 3602879701896397 / 18014398509481984"
  using double_0_2 by simp

lemmas residue_steps =
  double_0_1 double_0_2_reduced residue_step_a residue_step_b
  residue_step_c residue_step_d residue_sum_ab residue_sum_abc residue_sum_abcd

lemma residue_changes:
  "net_delta_all_entries PEPE_MINT (example_tx example_residue_meta) example_residue_meta = 0"
  "trader_changes PEPE_MINT (example_tx example_residue_meta) example_residue_meta =
     [3602879701896397 / 36028797018963968, 3602879701896397 / 18014398509481984,
      - (3602879701896397 / 36028797018963968), - (3602879701896397 / 18014398509481984)]"
  "xntChange_of (example_tx example_residue_meta) example_residue_meta = - 1"
  by (simp_all add: net_delta_all_entries_def owned_amounts_def trader_changes_def
        trader_change_def example_defs eval_defs residue_steps)

lemma residue_pepeChange:
  "pepeChange_of (example_tx example_residue_meta) example_residue_meta =
     1 / 36028797018963968"
  by (simp add: pepeChange_sum residue_changes js_sum_def js_add_def residue_steps)

text \<open>
  Where the claim as worded fails: no trade whenever the net PEPE delta over the balance
  entries the trader owns is zero. In both transactions below the trader
  holds exactly as much PEPE after as before, over all entries the trader owns, and loses
  1000000000 lamports. In the first an account of the trader is closed: it has a pre
  record of 200 and no post record, so the 200 PEPE that left it are not counted, and the
  200 that arrived on the trader's other account are: a \<^verbatim>\<open>buy\<close> of 200. In the second
  the four changes \<^verbatim>\<open>+0.1\<close>, \<^verbatim>\<open>+0.2\<close>, \<^verbatim>\<open>-0.1\<close>, \<^verbatim>\<open>-0.2\<close> are added as doubles
  and leave \<^verbatim>\<open>2 ** -55\<close>: a \<^verbatim>\<open>buy\<close> again.
\<close>

theorem zero_net_delta_counterexample:
  "net_delta_all_entries PEPE_MINT (example_tx example_closed_meta) example_closed_meta = 0
   \<and> map_option trade_type
        (fst (parseSwapFromTransaction 0 1 (Some (example_tx example_closed_meta)))) = Some buy
   \<and> map_option token_amount
        (fst (parseSwapFromTransaction 0 1 (Some (example_tx example_closed_meta)))) = Some 200
   \<and> net_delta_all_entries PEPE_MINT (example_tx example_residue_meta) example_residue_meta = 0
   \<and> map_option trade_type
        (fst (parseSwapFromTransaction 0 1 (Some (example_tx example_residue_meta)))) = Some buy
   \<and> map_option token_amount
        (fst (parseSwapFromTransaction 0 1 (Some (example_tx example_residue_meta))))
       = Some (1 / 36028797018963968)"
proof -
  have b: "classify 200 (- 1) = Some buy" "classify (1 / 36028797018963968) (- 1) = Some buy"
    by (simp_all add: classify_def)
  from parse_trade [OF example_meta closed_changes(2,3) _ _ b(1), of 0 1]
  have "parseSwapFromTransaction 0 1 (Some (example_tx example_closed_meta)) =
          (Some \<lparr> trade_id = 1, signature = ''sig1'', trade_type = buy, token_amount = 200,
                   native_amount = 1, price = Some (js_div 1 200), trader_address = ''Trader'',
                   trader_prefix = ''Trader'', timestamp = 1700000000000, slot = Some 42 \<rparr>, 2)"
    by (simp add: example_fields)
  moreover
  from parse_trade [OF example_meta residue_pepeChange residue_changes(3) _ _ b(2), of 0 1]
  have "parseSwapFromTransaction 0 1 (Some (example_tx example_residue_meta)) =
          (Some \<lparr> trade_id = 1, signature = ''sig1'', trade_type = buy,
                   token_amount = 1 / 36028797018963968, native_amount = 1,
                   price = Some (js_div 1 (1 / 36028797018963968)), trader_address = ''Trader'',
                   trader_prefix = ''Trader'', timestamp = 1700000000000, slot = Some 42 \<rparr>, 2)"
    by (simp add: example_fields)
  ultimately show ?thesis
    by (simp add: closed_changes(1) residue_changes(1))
qed



text \<open>
  Claim C4. In every trade the inferrer returns, the price is present exactly for
  \<^verbatim>\<open>buy\<close> and \<^verbatim>\<open>sell\<close>, where it is \<^verbatim>\<open>native_amount / token_amount\<close>, the
  quotient of the two fields as the division of the language gives it; for
  \<^verbatim>\<open>lp_add\<close> and \<^verbatim>\<open>lp_remove\<close> it is \<^verbatim>\<open>null\<close>.
\<close>

theorem price_iff_swap:
  assumes "parseSwapFromTransaction now c txo = (Some t, c')"
  shows "(price t \<noteq> None \<longleftrightarrow> trade_type t = buy \<or> trade_type t = sell)
       \<and> (trade_type t = buy \<or> trade_type t = sell
            \<longrightarrow> price t = Some (js_div (native_amount t) (token_amount t)))
       \<and> (trade_type t = lp_add \<or> trade_type t = lp_remove \<longrightarrow> price t = None)"
  using assms by (elim parse_Some) auto

theorem price_iff_swap_witness:
  "price example_buy_trade =
     Some (js_div (native_amount example_buy_trade) (token_amount example_buy_trade))
   \<and> price example_buy_trade = Some (5764607523034235 / 1152921504606846976)
   \<and> trade_type example_lp_remove_trade = lp_remove
   \<and> price example_lp_remove_trade = None"
proof -
  have b: "trade_type example_buy_trade = buy"
    and l: "trade_type example_lp_remove_trade = lp_remove"
    by (simp_all add: example_buy_trade_def example_lp_remove_trade_def)
  have v: "price example_buy_trade = Some (5764607523034235 / 1152921504606846976)"
    by (simp only: example_buy_trade_def trade.select_convs double_0_005)
  from price_iff_swap [OF parse_example_buy] price_iff_swap [OF parse_example_lp_remove] b l v
  show ?thesis by blast
qed

text \<open>
  Claim C5. In every trade the inferrer returns, \<^verbatim>\<open>token_amount\<close> and
  \<^verbatim>\<open>native_amount\<close> are strictly positive: they are the absolute values of two
  deltas that are both nonzero.
\<close>

theorem amounts_strictly_positive:
  assumes "parseSwapFromTransaction now c txo = (Some t, c')"
  shows "0 < token_amount t \<and> 0 < native_amount t
       \<and> (\<exists>tx m. txo = Some tx \<and> meta tx = Some m
              \<and> pepeChange_of tx m \<noteq> 0 \<and> xntChange_of tx m \<noteq> 0
              \<and> token_amount t = \<bar>pepeChange_of tx m\<bar>
              \<and> native_amount t = \<bar>xntChange_of tx m\<bar>)"
  using assms by (elim parse_Some) auto

theorem amounts_strictly_positive_witness:
  "0 < token_amount example_buy_trade \<and> 0 < native_amount example_buy_trade
   \<and> 0 < token_amount example_lp_remove_trade \<and> 0 < native_amount example_lp_remove_trade"
  using amounts_strictly_positive [OF parse_example_buy]
    amounts_strictly_positive [OF parse_example_lp_remove]
  by simp

text \<open>
  Claim C10. Only token-balance entries whose \<^verbatim>\<open>accountIndex\<close> occurs in both the
  pre-balance and the post-balance list count: taking an entry that occurs only in the
  pre-balance list, or only in the post-balance list, out of its list changes neither
  \<^verbatim>\<open>pepeChange\<close> nor \<^verbatim>\<open>xntTokenChange\<close>, and so does dropping all such entries.
\<close>

theorem unmatched_entries_contribute_nothing:
  fixes tx :: parsed_tx and m :: tx_meta
  defines "changes \<equiv> \<lambda>pre post.
     splChanges tx (m\<lparr>preTokenBalances := Some pre, postTokenBalances := Some post\<rparr>)"
  shows "(accountIndex e \<notin> accountIndex ` set post
            \<longrightarrow> changes (psa @ e # psb) post = changes (psa @ psb) post)
       \<and> (accountIndex e \<notin> accountIndex ` set pre
            \<longrightarrow> changes pre (qsa @ e # qsb) = changes pre (qsa @ qsb))
       \<and> changes pre post =
           changes (filter (\<lambda>p. accountIndex p \<in> accountIndex ` set post) pre)
                   (filter (\<lambda>q. accountIndex q \<in> accountIndex ` set pre) post)"
proof (intro conjI impI)
  assume h: "accountIndex e \<notin> accountIndex ` set post"
  show "changes (psa @ e # psb) post = changes (psa @ psb) post"
    unfolding changes_def splChanges_lists by (simp only: changes_drop_pre [OF h])
next
  assume h: "accountIndex e \<notin> accountIndex ` set pre"
  show "changes pre (qsa @ e # qsb) = changes pre (qsa @ qsb)"
    unfolding changes_def splChanges_lists by (simp only: changes_drop_post [OF h])
next
  show "changes pre post =
           changes (filter (\<lambda>p. accountIndex p \<in> accountIndex ` set post) pre)
                   (filter (\<lambda>q. accountIndex q \<in> accountIndex ` set pre) post)"
    unfolding changes_def splChanges_lists by (simp only: changes_matched_only)
qed

theorem unmatched_entries_contribute_nothing_witness:
  "splChanges example_buy_tx
     (example_buy_meta\<lparr>preTokenBalances := Some [balance_entry 1 PEPE_MINT ''Trader'' 1000],
        postTokenBalances := Some [balance_entry 1 PEPE_MINT ''Trader'' 1200,
                                   balance_entry 5 PEPE_MINT ''Trader'' 999]\<rparr>) = (200, 0)
   \<and> splChanges example_buy_tx
     (example_buy_meta\<lparr>preTokenBalances := Some [balance_entry 1 PEPE_MINT ''Trader'' 1000,
                                               balance_entry 7 XNT_MINT ''Trader'' 33],
        postTokenBalances := Some [balance_entry 1 PEPE_MINT ''Trader'' 1200]\<rparr>) = (200, 0)"
proof -
  have base: "splChanges example_buy_tx
     (example_buy_meta\<lparr>preTokenBalances := Some ([balance_entry 1 PEPE_MINT ''Trader'' 1000] @ []),
        postTokenBalances := Some ([balance_entry 1 PEPE_MINT ''Trader'' 1200] @ [])\<rparr>) = (200, 0)"
    by (simp add: example_defs eval_defs)
  have post_only: "accountIndex (balance_entry 5 PEPE_MINT ''Trader'' 999)
      \<notin> accountIndex ` set ([balance_entry 1 PEPE_MINT ''Trader'' 1000] @ [])"
    by (simp add: balance_entry_def)
  have pre_only: "accountIndex (balance_entry 7 XNT_MINT ''Trader'' 33)
      \<notin> accountIndex ` set ([balance_entry 1 PEPE_MINT ''Trader'' 1200] @ [])"
    by (simp add: balance_entry_def)
  have a: "splChanges example_buy_tx
     (example_buy_meta\<lparr>preTokenBalances := Some ([balance_entry 1 PEPE_MINT ''Trader'' 1000] @
                                               balance_entry 7 XNT_MINT ''Trader'' 33 # []),
        postTokenBalances := Some ([balance_entry 1 PEPE_MINT ''Trader'' 1200] @ [])\<rparr>) = (200, 0)"
    using unmatched_entries_contribute_nothing
         [where e = "balance_entry 7 XNT_MINT ''Trader'' 33"
            and post = "[balance_entry 1 PEPE_MINT ''Trader'' 1200] @ []"
            and tx = example_buy_tx and m = example_buy_meta
            and psa = "[balance_entry 1 PEPE_MINT ''Trader'' 1000]" and psb = "[]",
          THEN conjunct1, rule_format, OF pre_only]
    by (simp only: base)
  have b: "splChanges example_buy_tx
     (example_buy_meta\<lparr>preTokenBalances := Some ([balance_entry 1 PEPE_MINT ''Trader'' 1000] @ []),
        postTokenBalances := Some ([balance_entry 1 PEPE_MINT ''Trader'' 1200] @
                                   balance_entry 5 PEPE_MINT ''Trader'' 999 # [])\<rparr>) = (200, 0)"
    using unmatched_entries_contribute_nothing
         [where e = "balance_entry 5 PEPE_MINT ''Trader'' 999"
            and pre = "[balance_entry 1 PEPE_MINT ''Trader'' 1000] @ []"
            and tx = example_buy_tx and m = example_buy_meta
            and qsa = "[balance_entry 1 PEPE_MINT ''Trader'' 1200]" and qsb = "[]",
          THEN conjunct2, THEN conjunct1, rule_format, OF post_only]
    by (simp only: base)
  from a b show ?thesis by (simp only: append_Nil2 append_Cons append_Nil simp_thms)
qed

subsection \<open>The retry loop\<close>

lemma js_includes_iff: "js_includes msg sub \<longleftrightarrow> (\<exists>ps ss. msg = ps @ sub @ ss)"
proof (induction msg)
  case Nil
  show ?case by auto
next
  case (Cons c cs)
  have "take (length sub) (c # cs) = sub \<longleftrightarrow> (\<exists>ss. c # cs = sub @ ss)"
    by (metis append_eq_conv_conj append_take_drop_id)
  moreover have "(\<exists>ps ss. c # cs = ps @ sub @ ss) \<longleftrightarrow>
                 (\<exists>ss. c # cs = sub @ ss) \<or> (\<exists>ps ss. cs = ps @ sub @ ss)"
  proof
    assume "\<exists>ps ss. c # cs = ps @ sub @ ss"
    then obtain ps ss where e: "c # cs = ps @ sub @ ss" by blast
    show "(\<exists>ss. c # cs = sub @ ss) \<or> (\<exists>ps ss. cs = ps @ sub @ ss)"
    proof (cases ps)
      case Nil
      with e show ?thesis by auto
    next
      case (Cons p ps')
      with e have "cs = ps' @ sub @ ss" by simp
      then show ?thesis by blast
    qed
  next
    assume "(\<exists>ss. c # cs = sub @ ss) \<or> (\<exists>ps ss. cs = ps @ sub @ ss)"
    then show "\<exists>ps ss. c # cs = ps @ sub @ ss"
    proof
      assume "\<exists>ss. c # cs = sub @ ss"
      then show ?thesis by (metis append_Nil)
    next
      assume "\<exists>ps ss. cs = ps @ sub @ ss"
      then obtain ps ss where "cs = ps @ sub @ ss" by blast
      then have "c # cs = (c # ps) @ sub @ ss" by simp
      then show ?thesis by blast
    qed
  qed
  ultimately show ?case using Cons.IH by simp
qed

lemma withRetry_loop_spec:
  "\<exists>n. attempt \<le> n \<and> n \<le> max attempt retries
      \<and> (\<forall>k. attempt \<le> k \<and> k < n \<longrightarrow> rate_limited (fn k))
      \<and> (n < retries \<longrightarrow> \<not> rate_limited (fn n))
      \<and> withRetry_loop fn retries baseDelayMs attempt slept =
          (fn n, slept @ map (\<lambda>k. baseDelayMs * 2 ^ k) [attempt..<n])"
proof (induction fn retries baseDelayMs attempt slept rule: withRetry_loop.induct)
  case (1 fn retries baseDelayMs attempt slept)
  show ?case
  proof (cases "rate_limited (fn attempt) \<and> attempt < retries")
    case False
    then have "withRetry_loop fn retries baseDelayMs attempt slept = (fn attempt, slept)"
      by (subst withRetry_loop.simps) (auto simp: rate_limited_def split: sum.splits)
    with False show ?thesis
      by (intro exI [of _ attempt]) auto
  next
    case True
    then obtain e where e: "fn attempt = Inl e" "is429 e"
      by (auto simp: rate_limited_def split: sum.splits)
    with True have cont: "\<not> (\<not> is429 e \<or> retries \<le> attempt)" by simp
    from "1.IH" [OF e(1) cont refl]
    obtain n where n: "attempt + 1 \<le> n" "n \<le> max (attempt + 1) retries"
      "\<forall>k. attempt + 1 \<le> k \<and> k < n \<longrightarrow> rate_limited (fn k)"
      "n < retries \<longrightarrow> \<not> rate_limited (fn n)"
      "withRetry_loop fn retries baseDelayMs (attempt + 1)
         (slept @ [baseDelayMs * 2 ^ attempt]) =
       (fn n, (slept @ [baseDelayMs * 2 ^ attempt]) @
                 map (\<lambda>k. baseDelayMs * 2 ^ k) [attempt + 1..<n])"
      by blast
    have unfold: "withRetry_loop fn retries baseDelayMs attempt slept =
        withRetry_loop fn retries baseDelayMs (attempt + 1)
         (slept @ [baseDelayMs * 2 ^ attempt])"
      using e True by (subst withRetry_loop.simps) (simp add: Let_def)
    have range: "[attempt..<n] = attempt # [attempt + 1..<n]"
      using n(1) by (simp add: upt_conv_Cons)
    have lim: "\<forall>k. attempt \<le> k \<and> k < n \<longrightarrow> rate_limited (fn k)"
    proof (intro allI impI)
      fix k assume "attempt \<le> k \<and> k < n"
      then consider "k = attempt" | "attempt + 1 \<le> k \<and> k < n" by linarith
      then show "rate_limited (fn k)"
        using True n(3) by cases auto
    qed
    show ?thesis
      using n(1,2,4) True lim unfold n(5) range
      by (intro exI [of _ n]) auto
  qed
qed

lemma withRetry_loop_stop:
  "\<not> rate_limited (fn attempt) \<or> retries \<le> attempt
     \<Longrightarrow> withRetry_loop fn retries baseDelayMs attempt slept = (fn attempt, slept)"
  by (subst withRetry_loop.simps) (auto simp: rate_limited_def split: sum.splits)

lemma withRetry_loop_retry:
  "rate_limited (fn attempt) \<Longrightarrow> attempt < retries
     \<Longrightarrow> withRetry_loop fn retries baseDelayMs attempt slept =
         withRetry_loop fn retries baseDelayMs (attempt + 1) (slept @ [baseDelayMs * 2 ^ attempt])"
  by (subst withRetry_loop.simps) (auto simp: rate_limited_def Let_def split: sum.splits)

lemma is429_examples: "\<not> is429 error_boom" "is429 error_429"
  by (simp_all add: is429_def error_msg_def error_boom_def error_429_def)

text \<open>
  Claim C6. \<^verbatim>\<open>withRetry\<close> with the defaults makes \<open>n \<le> 6\<close> retries: each of the
  calls \<open>0, \<dots>, n - 1\<close> failed with a rate-limit error, the delay slept before retry
  \<open>k\<close> is \<open>500 \<sqdot> 2\<^sup>k\<close> ms, and the outcome of call \<open>n\<close> is the result, which is not a
  rate-limit failure unless \<open>n = 6\<close>. So a failure that is not a rate limit propagates at
  once, with no retry and no delay, and after six retries a seventh rate-limit failure
  propagates.
\<close>

theorem withRetry_only_on_rate_limit:
  "(\<exists>n. n \<le> 6
        \<and> withRetry fn = (fn n, map (\<lambda>k. 500 * 2 ^ k) [0..<n])
        \<and> (\<forall>k. k < n \<longrightarrow> rate_limited (fn k))
        \<and> (n < 6 \<longrightarrow> \<not> rate_limited (fn n)))
   \<and> (fn 0 = Inl e \<and> \<not> is429 e \<longrightarrow> withRetry fn = (Inl e, []))
   \<and> ((\<forall>k. k \<le> 6 \<longrightarrow> rate_limited (fn k))
        \<longrightarrow> withRetry fn = (fn 6, [500, 1000, 2000, 4000, 8000, 16000]))"
proof (intro conjI impI)
  from withRetry_loop_spec [of 0 6 fn 500 "[]"]
  obtain n where n: "n \<le> max 0 6" "\<forall>k. 0 \<le> k \<and> k < n \<longrightarrow> rate_limited (fn k)"
    "n < 6 \<longrightarrow> \<not> rate_limited (fn n)"
    "withRetry_loop fn 6 500 0 [] = (fn n, [] @ map (\<lambda>k. 500 * 2 ^ k) [0..<n])"
    by blast
  then show "\<exists>n. n \<le> 6
        \<and> withRetry fn = (fn n, map (\<lambda>k. 500 * 2 ^ k) [0..<n])
        \<and> (\<forall>k. k < n \<longrightarrow> rate_limited (fn k))
        \<and> (n < 6 \<longrightarrow> \<not> rate_limited (fn n))"
    by (intro exI [of _ n]) (simp add: withRetry_def withRetry_opts_def)
next
  assume "fn 0 = Inl e \<and> \<not> is429 e"
  then have "\<not> rate_limited (fn 0)" by (simp add: rate_limited_def)
  then have "withRetry_loop fn 6 500 0 [] = (fn 0, [])"
    by (intro withRetry_loop_stop) simp
  with \<open>fn 0 = Inl e \<and> \<not> is429 e\<close> show "withRetry fn = (Inl e, [])"
    by (simp add: withRetry_def withRetry_opts_def)
next
  assume all: "\<forall>k. k \<le> 6 \<longrightarrow> rate_limited (fn k)"
  have step: "withRetry_loop fn 6 500 k slept =
              withRetry_loop fn 6 500 (Suc k) (slept @ [500 * 2 ^ k])" if "k < 6" for k slept
    using all that withRetry_loop_retry [of fn k 6 500 slept] by simp
  have six: "Suc (Suc (Suc (Suc (Suc (Suc 0))))) = 6" by simp
  have stop: "withRetry_loop fn 6 500 (Suc (Suc (Suc (Suc (Suc (Suc 0)))))) slept =
              (fn (Suc (Suc (Suc (Suc (Suc (Suc 0)))))), slept)" for slept
    by (intro withRetry_loop_stop) simp
  have "withRetry_loop fn 6 500 0 [] =
          (fn (Suc (Suc (Suc (Suc (Suc (Suc 0)))))), [500, 1000, 2000, 4000, 8000, 16000])"
    by (simp add: step stop)
  then show "withRetry fn = (fn 6, [500, 1000, 2000, 4000, 8000, 16000])"
    by (simp only: six withRetry_def withRetry_opts_def)
qed

theorem withRetry_only_on_rate_limit_witness:
  "withRetry (\<lambda>k::nat. Inl error_boom :: js_error + nat) = (Inl error_boom, [])
   \<and> withRetry (\<lambda>k::nat. Inl error_429 :: js_error + nat) =
       (Inl error_429, [500, 1000, 2000, 4000, 8000, 16000])
   \<and> withRetry flaky_twice = (Inr 7, [500, 1000])"
proof -
  have a: "(\<lambda>k::nat. Inl error_boom :: js_error + nat) 0 = Inl error_boom \<and> \<not> is429 error_boom"
    by (simp add: is429_examples)
  have b: "\<forall>k. k \<le> 6 \<longrightarrow> rate_limited ((\<lambda>k::nat. Inl error_429 :: js_error + nat) k)"
    by (simp add: rate_limited_def is429_examples)
  have rl: "rate_limited (flaky_twice k) \<longleftrightarrow> k < 2" for k
    by (simp add: flaky_twice_def rate_limited_def is429_examples)
  from withRetry_only_on_rate_limit [where fn = flaky_twice]
  obtain n where n: "n \<le> 6"
    "withRetry flaky_twice = (flaky_twice n, map (\<lambda>k. 500 * 2 ^ k) [0..<n])"
    "\<forall>k. k < n \<longrightarrow> rate_limited (flaky_twice k)"
    "n < 6 \<longrightarrow> \<not> rate_limited (flaky_twice n)"
    by blast
  from n(3) rl have "n \<le> 2" by (metis not_less order_refl)
  moreover from this n(4) rl have "\<not> n < 2" by auto
  ultimately have "n = 2" by simp
  with n(2) have c: "withRetry flaky_twice = (Inr 7, [500, 1000])"
    by (simp add: flaky_twice_def upt_rec)
  from withRetry_only_on_rate_limit
         [where fn = "\<lambda>k::nat. Inl error_boom :: js_error + nat" and e = error_boom] a
       withRetry_only_on_rate_limit
         [where fn = "\<lambda>k::nat. Inl error_429 :: js_error + nat"] b c
  show ?thesis by blast
qed

subsection \<open>The trade-history buffer\<close>

lemma history_broadcastTrade:
  "tradeHistory (broadcastTrade trade s) = take 8000 (trade # tradeHistory s)"
  by (simp add: broadcastTrade_def Let_def)

lemma length_broadcastTrade: "length (tradeHistory (broadcastTrade trade s)) \<le> 8000"
  by (simp add: history_broadcastTrade)

lemma length_broadcast_all:
  "trades \<noteq> [] \<or> length (tradeHistory s) \<le> 8000
     \<Longrightarrow> length (tradeHistory (broadcast_all trades s)) \<le> 8000"
  by (induction trades rule: rev_induct) (auto simp: broadcast_all_def length_broadcastTrade)

text \<open>
  Claim C7. A publish puts the trade at index 0 and keeps the first 8000 entries, so
  what leaves the buffer is taken from its old end, and the buffer holds at most 8000
  entries after every publish; from a buffer within the capacity (the empty one at start)
  it holds at most 8000 entries after every sequence of publishes.
\<close>

theorem history_bounded_by_capacity:
  "tradeHistory (broadcastTrade trade s) = take 8000 (trade # tradeHistory s)
   \<and> tradeHistory (broadcastTrade trade s) ! 0 = trade
   \<and> trade # tradeHistory s = tradeHistory (broadcastTrade trade s) @ drop 7999 (tradeHistory s)
   \<and> length (tradeHistory (broadcastTrade trade s)) \<le> 8000
   \<and> (trades \<noteq> [] \<or> length (tradeHistory s) \<le> 8000
        \<longrightarrow> length (tradeHistory (broadcast_all trades s)) \<le> 8000)
   \<and> length (tradeHistory (broadcast_all trades initial_hub)) \<le> 8000"
proof (intro conjI impI)
  show "tradeHistory (broadcastTrade trade s) = take 8000 (trade # tradeHistory s)"
    by (rule history_broadcastTrade)
  show "tradeHistory (broadcastTrade trade s) ! 0 = trade"
    by (simp add: history_broadcastTrade)
  have "take 8000 (trade # tradeHistory s) = trade # take 7999 (tradeHistory s)"
    by (simp add: take_Cons')
  then show "trade # tradeHistory s =
      tradeHistory (broadcastTrade trade s) @ drop 7999 (tradeHistory s)"
    by (simp add: history_broadcastTrade)
  show "length (tradeHistory (broadcastTrade trade s)) \<le> 8000"
    by (rule length_broadcastTrade)
  show "length (tradeHistory (broadcast_all trades initial_hub)) \<le> 8000"
    by (rule length_broadcast_all) (simp add: initial_hub_def)
next
  assume "trades \<noteq> [] \<or> length (tradeHistory s) \<le> 8000"
  then show "length (tradeHistory (broadcast_all trades s)) \<le> 8000"
    by (rule length_broadcast_all)
qed

theorem history_bounded_by_capacity_witness:
  "tradeHistory (broadcastTrade example_lp_remove_trade
       \<lparr> clients = [], tradeHistory = replicate 8000 example_buy_trade \<rparr>)
     = example_lp_remove_trade # replicate 7999 example_buy_trade
   \<and> length (tradeHistory (broadcast_all [example_buy_trade]
       \<lparr> clients = [], tradeHistory = replicate 9000 example_buy_trade \<rparr>)) \<le> 8000"
proof -
  have "[example_buy_trade] \<noteq> []
        \<or> length (tradeHistory \<lparr> clients = [], tradeHistory = replicate 9000 example_buy_trade \<rparr>)
            \<le> 8000"
    by simp
  with history_bounded_by_capacity
         [where trade = example_lp_remove_trade
            and s = "\<lparr> clients = [], tradeHistory = replicate 8000 example_buy_trade \<rparr>"]
       history_bounded_by_capacity
         [where trades = "[example_buy_trade]"
            and s = "\<lparr> clients = [], tradeHistory = replicate 9000 example_buy_trade \<rparr>"]
  show ?thesis by (simp add: take_Cons')
qed

subsection \<open>The holder-count cache\<close>







lemma upt_0_8: "[0..<8] = [0, 1, 2, 3, 4, 5, 6, 7]"
  by (simp add: upt_rec)

lemma readU64LE_example: "readU64LE [1, 2, 0, 0, 0, 0, 0, 1] = Some 72057594037928449"
  by (simp add: readU64LE_def upt_0_8)











subsection \<open>The throttle of the backfill loop\<close>

lemma parse_None_counter:
  "parseSwapFromTransaction now c txo = (None, c') \<Longrightarrow> c' = c"
  by (auto simp: parseSwapFromTransaction_def Let_def split: option.splits if_splits)

lemma fetch_and_parse_None:
  "fetch_and_parse g now c sig = (None, c') \<Longrightarrow> c' = c"
  by (auto simp: fetch_and_parse_def dest: parse_None_counter split: sum.splits option.splits)

lemma backfill_step_no_trade:
  assumes "fst (fetch_and_parse g (clock i) (tradeIdCounter st) sig) = None"
  shows "backfill_step g clock i sig st = st"
proof -
  obtain c where c: "fetch_and_parse g (clock i) (tradeIdCounter st) sig = (None, c)"
    using assms by (cases "fetch_and_parse g (clock i) (tradeIdCounter st) sig") auto
  then have "c = tradeIdCounter st" by (rule fetch_and_parse_None)
  with c show ?thesis by (simp add: backfill_step_def)
qed

lemma backfill_step_trade:
  assumes "fetch_and_parse g (clock i) (tradeIdCounter st) sig = (Some trade, c)"
  shows "processed (backfill_step g clock i sig st) = processed st + 1"
    and "parsedTrades (backfill_step g clock i sig st) = parsedTrades st @ [trade]"
    and "pauses (backfill_step g clock i sig st) =
           (if (processed st + 1) mod 25 = 0 then pauses st @ [(i, 120)] else pauses st)"
  using assms by (simp_all add: backfill_step_def Let_def)

lemma backfill_step_cases:
  obtains (skip) "backfill_step g clock i sig st = st"
          "fst (fetch_and_parse g (clock i) (tradeIdCounter st) sig) = None"
  | (trade) trade c where
      "fetch_and_parse g (clock i) (tradeIdCounter st) sig = (Some trade, c)"
proof (cases "fetch_and_parse g (clock i) (tradeIdCounter st) sig")
  case (Pair r c)
  show ?thesis
  proof (cases r)
    case None
    with Pair show ?thesis by (intro skip backfill_step_no_trade) simp_all
  next
    case (Some t)
    with Pair show ?thesis by (intro trade) simp
  qed
qed

lemma div_25_step:
  "(Suc p) mod 25 = 0 \<Longrightarrow> Suc p div 25 = Suc (p div 25)"
  "(Suc p) mod 25 \<noteq> 0 \<Longrightarrow> Suc p div 25 = p div 25"
  by (simp_all add: div_Suc)

lemma backfill_step_inv:
  assumes "length (parsedTrades st) = processed st"
    and "length (pauses st) = processed st div 25"
    and "\<forall>q \<in> set (pauses st). snd q = 120"
  shows "length (parsedTrades (backfill_step g clock i sig st)) =
           processed (backfill_step g clock i sig st)
       \<and> length (pauses (backfill_step g clock i sig st)) =
           processed (backfill_step g clock i sig st) div 25
       \<and> (\<forall>q \<in> set (pauses (backfill_step g clock i sig st)). snd q = 120)"
proof (rule backfill_step_cases [where g = g and clock = clock and i = i and sig = sig and st = st])
  assume "backfill_step g clock i sig st = st"
  with assms show ?thesis by simp
next
  fix t c
  assume trade: "fetch_and_parse g (clock i) (tradeIdCounter st) sig = (Some t, c)"
  show ?thesis
  proof (cases "Suc (processed st) mod 25 = 0")
    case True
    with assms backfill_step_trade [where clock = clock and i = i, OF trade] show ?thesis
      by (simp add: div_25_step(1))
  next
    case False
    with assms backfill_step_trade [where clock = clock and i = i, OF trade] show ?thesis
      by (simp add: div_25_step(2))
  qed
qed

lemma backfill_loop_inv:
  assumes "length (parsedTrades st) = processed st"
    and "length (pauses st) = processed st div 25"
    and "\<forall>q \<in> set (pauses st). snd q = 120"
  shows "length (parsedTrades (backfill_loop g clock i sigs st)) =
           processed (backfill_loop g clock i sigs st)
       \<and> length (pauses (backfill_loop g clock i sigs st)) =
           processed (backfill_loop g clock i sigs st) div 25
       \<and> (\<forall>q \<in> set (pauses (backfill_loop g clock i sigs st)). snd q = 120)"
  using assms
proof (induction sigs arbitrary: i st)
  case Nil
  then show ?case by simp
next
  case (Cons sig sigs)
  let ?st = "backfill_step g clock i sig st"
  from backfill_step_inv [OF Cons.prems, of g clock i sig]
  have a: "length (parsedTrades ?st) = processed ?st"
    and b: "length (pauses ?st) = processed ?st div 25"
    and c: "\<forall>q \<in> set (pauses ?st). snd q = 120"
    by blast+
  from Cons.IH [OF a b c, of "Suc i"] show ?case by simp
qed

lemma backfill_loop_no_trades:
  assumes "\<And>i sig c. fst (fetch_and_parse g (clock i) c sig) = None"
  shows "backfill_loop g clock i sigs st = st"
proof (induction sigs arbitrary: i)
  case Nil
  show ?case by simp
next
  case (Cons sig sigs)
  have "backfill_step g clock i sig st = st"
    by (rule backfill_step_no_trade) (rule assms)
  then show ?case by (simp add: Cons.IH)
qed

lemma backfill_loop_all_trades:
  assumes "\<And>i sig c. \<exists>t c'. fetch_and_parse g (clock i) c sig = (Some t, c')"
  shows "processed (backfill_loop g clock i sigs st) = processed st + length sigs"
proof (induction sigs arbitrary: i st)
  case Nil
  show ?case by simp
next
  case (Cons sig sigs)
  obtain t c' where t: "fetch_and_parse g (clock i) (tradeIdCounter st) sig = (Some t, c')"
    using assms by blast
  have "processed (backfill_step g clock i sig st) = processed st + 1"
    by (rule backfill_step_trade(1) [where clock = clock and i = i, OF t])
  then show ?case by (simp add: Cons.IH)
qed

lemma fetch_all_buys:
  "\<exists>t c'. fetch_and_parse rpc_all_buys now c sig = (Some t, c')"
proof -
  have "\<not> rate_limited (rpc_all_buys sig 0) \<or> (6::nat) \<le> 0"
    by (simp add: rate_limited_def rpc_all_buys_def)
  then have "withRetry_loop (rpc_all_buys sig) 6 500 0 [] = (rpc_all_buys sig 0, [])"
    by (rule withRetry_loop_stop)
  then have "fst (withRetry (rpc_all_buys sig)) = Inr (Some example_buy_tx)"
    by (simp add: withRetry_def withRetry_opts_def rpc_all_buys_def)
  moreover have "meta example_buy_tx = Some example_buy_meta"
    by (simp add: example_buy_tx_def example_tx_def)
  from parse_buy [OF this, of now c]
  have "\<exists>t. parseSwapFromTransaction now c (Some example_buy_tx) = (Some t, c + 1)"
    by (simp add: example_buy_changes) blast
  ultimately show ?thesis by (simp add: fetch_and_parse_def) blast
qed

lemma fetch_no_trades:
  "fst (fetch_and_parse rpc_no_trades now c sig) = None"
proof -
  have "\<not> rate_limited (rpc_no_trades sig 0) \<or> (6::nat) \<le> 0"
    by (simp add: rate_limited_def rpc_no_trades_def)
  then have "withRetry_loop (rpc_no_trades sig) 6 500 0 [] = (rpc_no_trades sig 0, [])"
    by (rule withRetry_loop_stop)
  then have "fst (withRetry (rpc_no_trades sig)) = Inr (Some (example_tx example_noop_meta))"
    by (simp add: withRetry_def withRetry_opts_def rpc_no_trades_def)
  moreover have "pepeChange_of (example_tx example_noop_meta) example_noop_meta = 0"
    by (simp add: example_defs eval_defs)
  then have "parseSwapFromTransaction now c (Some (example_tx example_noop_meta)) = (None, c)"
    by (simp add: parseSwapFromTransaction_def example_tx_def)
  ultimately show ?thesis by (simp add: fetch_and_parse_def)
qed

text \<open>
  Claim C9, as the code has it. The throttle counts trades, not transactions: an
  iteration whose transaction gives no trade (the fetch failed, there was no
  transaction, or the inferrer returned \<^verbatim>\<open>null\<close>) changes nothing, and an iteration
  that gives a trade advances \<^verbatim>\<open>processed\<close> by one and sleeps 120 ms exactly when the
  new count is a multiple of 25. So at the end \<^verbatim>\<open>processed\<close> is the number of trades
  found and the loop has slept once for every 25 of them.
\<close>

theorem pause_every_25_trades:
  "(fst (fetch_and_parse g (clock i) (tradeIdCounter st) sig) = None
      \<longrightarrow> backfill_step g clock i sig st = st)
   \<and> (fetch_and_parse g (clock i) (tradeIdCounter st) sig = (Some trade, c)
      \<longrightarrow> processed (backfill_step g clock i sig st) = processed st + 1
        \<and> parsedTrades (backfill_step g clock i sig st) = parsedTrades st @ [trade]
        \<and> pauses (backfill_step g clock i sig st) =
            (if (processed st + 1) mod 25 = 0 then pauses st @ [(i, 120)] else pauses st))
   \<and> processed (fetchHistoricalTrades_loop g clock sigs idCounter) =
       length (parsedTrades (fetchHistoricalTrades_loop g clock sigs idCounter))
   \<and> length (pauses (fetchHistoricalTrades_loop g clock sigs idCounter)) =
       processed (fetchHistoricalTrades_loop g clock sigs idCounter) div 25
   \<and> (\<forall>q \<in> set (pauses (fetchHistoricalTrades_loop g clock sigs idCounter)). snd q = 120)"
proof -
  let ?st0 = "\<lparr> processed = 0, parsedTrades = [], tradeIdCounter = idCounter, pauses = [] \<rparr>"
  have "length (parsedTrades ?st0) = processed ?st0"
    and "length (pauses ?st0) = processed ?st0 div 25"
    and "\<forall>q \<in> set (pauses ?st0). snd q = 120"
    by simp_all
  from backfill_loop_inv [OF this, of g clock 0 sigs]
  have run: "processed (fetchHistoricalTrades_loop g clock sigs idCounter) =
       length (parsedTrades (fetchHistoricalTrades_loop g clock sigs idCounter))
   \<and> length (pauses (fetchHistoricalTrades_loop g clock sigs idCounter)) =
       processed (fetchHistoricalTrades_loop g clock sigs idCounter) div 25
   \<and> (\<forall>q \<in> set (pauses (fetchHistoricalTrades_loop g clock sigs idCounter)). snd q = 120)"
    by (simp add: fetchHistoricalTrades_loop_def)
  have skip: "fst (fetch_and_parse g (clock i) (tradeIdCounter st) sig) = None
      \<longrightarrow> backfill_step g clock i sig st = st"
    by (intro impI backfill_step_no_trade)
  have trade: "fetch_and_parse g (clock i) (tradeIdCounter st) sig = (Some trade, c)
      \<longrightarrow> processed (backfill_step g clock i sig st) = processed st + 1
        \<and> parsedTrades (backfill_step g clock i sig st) = parsedTrades st @ [trade]
        \<and> pauses (backfill_step g clock i sig st) =
            (if (processed st + 1) mod 25 = 0 then pauses st @ [(i, 120)] else pauses st)"
  proof
    assume t: "fetch_and_parse g (clock i) (tradeIdCounter st) sig = (Some trade, c)"
    show "processed (backfill_step g clock i sig st) = processed st + 1
        \<and> parsedTrades (backfill_step g clock i sig st) = parsedTrades st @ [trade]
        \<and> pauses (backfill_step g clock i sig st) =
            (if (processed st + 1) mod 25 = 0 then pauses st @ [(i, 120)] else pauses st)"
      using backfill_step_trade [where clock = clock and i = i, OF t] by blast
  qed
  from skip trade run show ?thesis by blast
qed

theorem pause_every_25_trades_witness:
  "processed (fetchHistoricalTrades_loop rpc_all_buys (\<lambda>i. 0) (replicate 25 ''sig'') 1) = 25
   \<and> length (pauses (fetchHistoricalTrades_loop rpc_all_buys (\<lambda>i. 0) (replicate 25 ''sig'') 1))
       = 1
   \<and> backfill_step rpc_no_trades (\<lambda>i. 0) 24 ''sig''
        \<lparr> processed = 24, parsedTrades = [], tradeIdCounter = 1, pauses = [] \<rparr>
      = \<lparr> processed = 24, parsedTrades = [], tradeIdCounter = 1, pauses = [] \<rparr>"
proof -
  have "processed (backfill_loop rpc_all_buys (\<lambda>i. 0) 0 (replicate 25 ''sig'')
          \<lparr> processed = 0, parsedTrades = [], tradeIdCounter = 1, pauses = [] \<rparr>) =
        processed \<lparr> processed = 0, parsedTrades = [], tradeIdCounter = 1, pauses = [] \<rparr>
          + length (replicate 25 ''sig'')"
    by (rule backfill_loop_all_trades) (rule fetch_all_buys)
  then have p: "processed (fetchHistoricalTrades_loop rpc_all_buys (\<lambda>i. 0)
                   (replicate 25 ''sig'') 1) = 25"
    by (simp add: fetchHistoricalTrades_loop_def)
  have n: "fst (fetch_and_parse rpc_no_trades ((\<lambda>i. 0) (24::nat))
             (tradeIdCounter \<lparr> processed = 24, parsedTrades = [], tradeIdCounter = 1,
                               pauses = [] \<rparr>) ''sig'') = None"
    by (rule fetch_no_trades)
  from pause_every_25_trades
         [where g = rpc_all_buys and clock = "\<lambda>i. 0" and sigs = "replicate 25 ''sig''"
            and idCounter = 1] p
  have a: "length (pauses (fetchHistoricalTrades_loop rpc_all_buys (\<lambda>i. 0)
             (replicate 25 ''sig'') 1)) = 1"
    by simp
  from pause_every_25_trades
         [where g = rpc_no_trades and clock = "\<lambda>i. 0" and i = 24 and sig = "''sig''"
            and st = "\<lparr> processed = 24, parsedTrades = [], tradeIdCounter = 1, pauses = [] \<rparr>"] n
  have b: "backfill_step rpc_no_trades (\<lambda>i. 0) 24 ''sig''
        \<lparr> processed = 24, parsedTrades = [], tradeIdCounter = 1, pauses = [] \<rparr>
      = \<lparr> processed = 24, parsedTrades = [], tradeIdCounter = 1, pauses = [] \<rparr>"
    by blast
  from p a b show ?thesis by simp
qed

text \<open>
  Where the claim as worded fails: 25 transactions are fetched and parsed, none of them
  is a trade, and the loop never sleeps.
\<close>

theorem pause_cadence_counterexample:
  "length (replicate 25 ''sig'') = 25
   \<and> processed (fetchHistoricalTrades_loop rpc_no_trades (\<lambda>i. 0) (replicate 25 ''sig'') 1) = 0
   \<and> pauses (fetchHistoricalTrades_loop rpc_no_trades (\<lambda>i. 0) (replicate 25 ''sig'') 1) = []"
proof -
  have "backfill_loop rpc_no_trades (\<lambda>i. 0) 0 (replicate 25 ''sig'')
          \<lparr> processed = 0, parsedTrades = [], tradeIdCounter = 1, pauses = [] \<rparr>
        = \<lparr> processed = 0, parsedTrades = [], tradeIdCounter = 1, pauses = [] \<rparr>"
    by (rule backfill_loop_no_trades) (rule fetch_no_trades)
  then show ?thesis by (simp add: fetchHistoricalTrades_loop_def)
qed

end
